theory Spec2Isabelle
  imports Complex_Main
begin

section \<open>Domain model (internal/domain)\<close>

text \<open>
  Conventions of the embedding.
  \<^item> A Go \<open>float64\<close> is a rational number: the arithmetic of the services (sums,
    products, one division of two counts, comparisons with constants) is read exactly.
  \<^item> A \<open>time.Time\<close> is an integer count of nanoseconds; \<open>0\<close> stands for the zero
    \<open>time.Time\<close> (\<open>IsZero()\<close>), which the repositories store as SQL NULL and read
    back as the zero value. A \<open>time.Duration\<close> is an integer count of nanoseconds;
    the durations of a trip stay far inside the range of \<open>int64\<close> (about 292 years),
    so its wrap-around is not modelled.
  \<^item> The string-typed enumerations of the domain package are datatypes; a string
    field whose empty value means "not set" stays a string (\<open>AssignedDriverID\<close>) or
    becomes an option (\<open>PaymentMethod\<close>, the requested \<open>Tier\<close>).
\<close>

type_synonym float64 = rat
type_synonym time = int
type_synonym duration = int

datatype DriverStatus = ONLINE | OFFLINE | ON_TRIP
datatype DriverTier = BASIC | PREMIUM
datatype RideStatus = REQUESTED | ASSIGNED | IN_TRIP | COMPLETED | CANCELLED
datatype PaymentMethod = CASH | CARD | WALLET | UPI
datatype TripStatus = STARTED | PAUSED | ENDED
datatype PaymentStatus = PENDING | SUCCESS | FAILED

record Driver =
  d_ID :: string
  d_Name :: string
  d_Phone :: string
  d_Status :: DriverStatus
  d_Tier :: DriverTier

record Ride =
  r_ID :: string
  r_RiderID :: string
  r_PickupLat :: float64
  r_PickupLng :: float64
  r_DestinationLat :: float64
  r_DestinationLng :: float64
  r_Status :: RideStatus
  r_AssignedDriverID :: string
  r_SurgeMultiplier :: float64
  r_PaymentMethod :: "PaymentMethod option"
  r_CreatedAt :: time
  r_CancelledAt :: time
  r_CancelReason :: string

record Trip =
  t_ID :: string
  t_RideID :: string
  t_DriverID :: string
  t_Status :: TripStatus
  t_Fare :: float64
  t_StartedAt :: time
  t_EndedAt :: time
  t_PausedAt :: time
  t_TotalPaused :: duration

record Payment =
  p_ID :: string
  p_TripID :: string
  p_Amount :: float64
  p_Status :: PaymentStatus
  p_IdempotencyKey :: string

record DriverLocation =
  l_DriverID :: string
  l_Lat :: float64
  l_Lng :: float64

section \<open>Errors (internal/service/errors.go, internal/repository/errors.go)\<close>

text \<open>
  \<open>ErrExternal\<close> stands for every error value that is not one of the package-level
  sentinels: a failure reported by the SQL driver, by Redis or by the payment provider.
\<close>

datatype error =
    ErrNotFound
  | ErrNoDriverAvailable
  | ErrRideNotInRequestedState
  | ErrInvalidRiderID
  | ErrInvalidRideID
  | ErrInvalidPickupLocation
  | ErrInvalidDestinationLocation
  | ErrInvalidDriverID
  | ErrInvalidTripID
  | ErrDriverHasActiveTrip
  | ErrRideNotAssigned
  | ErrDriverNotAssignedToRide
  | ErrTripAlreadyEnded
  | ErrTripNotStarted
  | ErrTripNotPaused
  | ErrInvalidPaymentAmount
  | ErrInvalidPaymentID
  | ErrInvalidLocation
  | ErrRideAlreadyCancelled
  | ErrRideCannotBeCancelled
  | ErrTripInProgress
  | ErrInvalidPaymentMethod
  | ErrExternal string

text \<open>\<open>mapErrorToHTTPStatus\<close> of the handler package: the response category of an error.\<close>

fun mapErrorToHTTPStatus :: "error \<Rightarrow> nat" where
  "mapErrorToHTTPStatus ErrNotFound = 404"
| "mapErrorToHTTPStatus ErrInvalidRiderID = 400"
| "mapErrorToHTTPStatus ErrInvalidRideID = 400"
| "mapErrorToHTTPStatus ErrInvalidDriverID = 400"
| "mapErrorToHTTPStatus ErrInvalidTripID = 400"
| "mapErrorToHTTPStatus ErrInvalidPickupLocation = 400"
| "mapErrorToHTTPStatus ErrInvalidDestinationLocation = 400"
| "mapErrorToHTTPStatus ErrInvalidLocation = 400"
| "mapErrorToHTTPStatus ErrInvalidPaymentAmount = 400"
| "mapErrorToHTTPStatus ErrInvalidPaymentID = 400"
| "mapErrorToHTTPStatus ErrInvalidPaymentMethod = 400"
| "mapErrorToHTTPStatus ErrDriverHasActiveTrip = 409"
| "mapErrorToHTTPStatus ErrTripAlreadyEnded = 409"
| "mapErrorToHTTPStatus ErrTripNotStarted = 409"
| "mapErrorToHTTPStatus ErrTripNotPaused = 409"
| "mapErrorToHTTPStatus ErrRideNotInRequestedState = 409"
| "mapErrorToHTTPStatus ErrRideAlreadyCancelled = 409"
| "mapErrorToHTTPStatus ErrRideCannotBeCancelled = 409"
| "mapErrorToHTTPStatus ErrTripInProgress = 409"
| "mapErrorToHTTPStatus ErrRideNotAssigned = 403"
| "mapErrorToHTTPStatus ErrDriverNotAssignedToRide = 403"
| "mapErrorToHTTPStatus ErrNoDriverAvailable = 503"
| "mapErrorToHTTPStatus (ErrExternal msg) = 500"

section \<open>Surge pricing (internal/service/surge.go)\<close>

record SurgeConfig =
  RadiusKm :: float64
  LowSurgeRatio :: float64
  MedSurgeRatio :: float64
  HighSurgeRatio :: float64
  MaxSurge :: float64

definition DefaultSurgeConfig :: SurgeConfig where
  "DefaultSurgeConfig =
     \<lparr>RadiusKm = 5, LowSurgeRatio = 6 / 5, MedSurgeRatio = 3 / 2,
      HighSurgeRatio = 2, MaxSurge = 2\<rparr>"

text \<open>
  \<open>countDriversInArea\<close>: the argument is what \<open>locationStore.FindNearbyDrivers\<close>
  returned; on an error the function answers the constant 10.
\<close>

definition countDriversInArea :: "error + DriverLocation list \<Rightarrow> int" where
  "countDriversInArea found =
     (case found of
        Inl err \<Rightarrow> 10
      | Inr drivers \<Rightarrow> int (length drivers))"

text \<open>
  The body of the \<open>for\<close> loop of \<open>countActiveRequestsInArea\<close>: the only status that is
  skipped is CANCELLED, and the distance test compares the squared degree distance,
  scaled by \<open>111 * 111\<close>, with \<open>radiusKm * radiusKm * 111 * 111\<close>.
\<close>

definition countsRide :: "Ride \<Rightarrow> float64 \<Rightarrow> float64 \<Rightarrow> float64 \<Rightarrow> bool" where
  "countsRide ride lat lng radiusKm =
     (if r_Status ride = CANCELLED then False
      else
        (let latDiff = r_PickupLat ride - lat;
             lngDiff = r_PickupLng ride - lng;
             distKm = ((latDiff * latDiff) + (lngDiff * lngDiff)) * 111 * 111
         in distKm \<le> radiusKm * radiusKm * 111 * 111))"

fun countLoop :: "Ride list \<Rightarrow> float64 \<Rightarrow> float64 \<Rightarrow> float64 \<Rightarrow> int \<Rightarrow> int" where
  "countLoop [] lat lng radiusKm count = count"
| "countLoop (ride # rides) lat lng radiusKm count =
     countLoop rides lat lng radiusKm
       (if countsRide ride lat lng radiusKm then count + 1 else count)"

text \<open>
  \<open>countActiveRequestsInArea\<close>: the first argument is what \<open>rideRepo.GetAll\<close> returned
  (the 100 most recently created rides); on an error the count is 0.
\<close>

definition countActiveRequestsInArea ::
  "error + Ride list \<Rightarrow> float64 \<Rightarrow> float64 \<Rightarrow> float64 \<Rightarrow> int" where
  "countActiveRequestsInArea allRides lat lng radiusKm =
     (case allRides of
        Inl err \<Rightarrow> 0
      | Inr rides \<Rightarrow> countLoop rides lat lng radiusKm 0)"

definition calculateSurgeMultiplier :: "int \<Rightarrow> int \<Rightarrow> SurgeConfig \<Rightarrow> float64" where
  "calculateSurgeMultiplier supply demand config =
     (if supply = 0 then
        (if demand > 0 then MaxSurge config else 1)
      else
        (let ratio = of_int demand / of_int supply
         in if ratio \<ge> HighSurgeRatio config then MaxSurge config
            else if ratio \<ge> MedSurgeRatio config then 3 / 2
            else if ratio \<ge> LowSurgeRatio config then 5 / 4
            else 1))"

text \<open>
  \<open>GetMultiplier\<close>: \<open>found\<close> is the answer of the location store to the radius query
  at \<open>(lat, lng)\<close> and \<open>allRides\<close> the answer of \<open>rideRepo.GetAll\<close>.
\<close>

definition GetMultiplier ::
  "error + DriverLocation list \<Rightarrow> error + Ride list \<Rightarrow> float64 \<Rightarrow> float64 \<Rightarrow> float64" where
  "GetMultiplier found allRides lat lng =
     (let config = DefaultSurgeConfig;
          supply = countDriversInArea found;
          demand = countActiveRequestsInArea allRides lat lng (RadiusKm config)
      in calculateSurgeMultiplier supply demand config)"

section \<open>The environment of the services\<close>

text \<open>
  The services talk to PostgreSQL, to Redis and to a payment provider. The tables and
  the Redis keys they use are the components of \<open>world\<close>. What a call cannot
  determine by itself comes from \<open>env\<close>: for every call site of an external system
  an optional injected failure (a connection error, a violated CHECK or FOREIGN KEY
  constraint, a timeout), the answer of the payment provider, and the answer of the
  Redis radius query. A table is the list of its rows, each row held as the struct that
  the repository's \<open>GetByID\<close> scans it into.
\<close>

record CachedDriver =
  c_ID :: string
  c_Name :: string
  c_Phone :: string
  c_Status :: DriverStatus
  c_Tier :: DriverTier

record world =
  rides :: "Ride list"
  drivers :: "Driver list"
  trips :: "Trip list"
  payments :: "Payment list"
  charged :: "float64 list"
  locks :: "string list"
  driverCache :: "(string \<times> CachedDriver) list"
  rideCacheKeys :: "string list"
  availableDrivers :: "string list"

datatype callsite =
    TripGetByID | TripGetActiveByDriverID | TripCreate | TripUpdate
  | RideGetByID | RideUpdate
  | DriverGetByID string | DriverRecheck string | DriverUpdateStatus
  | PaymentGetByIdempotencyKey | PaymentCreate | PaymentUpdateStatus
  | BeginTx | Commit
  | RideLockAcquire | RideLockRelease
  | DriverLockAcquire string | DriverLockRelease string
  | CacheGetDriversBatch | CacheSetDriver string | CacheInvalidateDriver string
  | CacheRemoveAvailableDriver string | CacheInvalidateRide

record env =
  faults :: "callsite \<Rightarrow> error option"
  Charge :: "float64 \<Rightarrow> error + bool"
  FindNearbyDrivers :: "float64 \<Rightarrow> float64 \<Rightarrow> float64 \<Rightarrow> error + DriverLocation list"
  cacheStore :: bool
  receiptService :: bool

section \<open>Repositories (internal/repository/postgres)\<close>

subsection \<open>Payments\<close>

text \<open>
  \<open>INSERT INTO payments\<close>: the primary key and \<open>UNIQUE (idempotency_key)\<close> of the
  schema reject a duplicate.
\<close>

definition payment_Create :: "env \<Rightarrow> world \<Rightarrow> Payment \<Rightarrow> error + world" where
  "payment_Create e w payment =
     (case faults e PaymentCreate of
        Some err \<Rightarrow> Inl err
      | None \<Rightarrow>
          if find (\<lambda>p. p_ID p = p_ID payment) (payments w) \<noteq> None then
            Inl (ErrExternal ''duplicate key value violates unique constraint payments_pkey'')
          else if find (\<lambda>p. p_IdempotencyKey p = p_IdempotencyKey payment) (payments w) \<noteq> None then
            Inl (ErrExternal ''duplicate key value violates unique constraint payments_idempotency_key_key'')
          else Inr (w\<lparr>payments := payments w @ [payment]\<rparr>))"

text \<open>\<open>GetByIdempotencyKey\<close>: no row is \<open>nil, nil\<close>, modelled as \<open>Inr None\<close>.\<close>

definition payment_GetByIdempotencyKey :: "env \<Rightarrow> world \<Rightarrow> string \<Rightarrow> error + Payment option" where
  "payment_GetByIdempotencyKey e w key =
     (case faults e PaymentGetByIdempotencyKey of
        Some err \<Rightarrow> Inl err
      | None \<Rightarrow> Inr (find (\<lambda>p. p_IdempotencyKey p = key) (payments w)))"

definition payment_UpdateStatus :: "env \<Rightarrow> world \<Rightarrow> string \<Rightarrow> PaymentStatus \<Rightarrow> error + world" where
  "payment_UpdateStatus e w ident status =
     (case faults e PaymentUpdateStatus of
        Some err \<Rightarrow> Inl err
      | None \<Rightarrow>
          if find (\<lambda>p. p_ID p = ident) (payments w) = None then Inl ErrNotFound
          else Inr (w\<lparr>payments :=
                 map (\<lambda>p. if p_ID p = ident then p\<lparr>p_Status := status\<rparr> else p) (payments w)\<rparr>))"

subsection \<open>Trips\<close>

text \<open>
  The column \<open>total_paused_seconds\<close> holds \<open>int64(trip.TotalPaused.Seconds())\<close>, whole
  seconds rounded towards zero, and is read back as that many seconds.
\<close>

definition truncSeconds :: "duration \<Rightarrow> duration" where
  "truncSeconds d =
     (if d \<ge> 0 then d div 1000000000 else - ((- d) div 1000000000)) * 1000000000"

definition storedTrip :: "Trip \<Rightarrow> Trip" where
  "storedTrip trip = trip\<lparr>t_TotalPaused := truncSeconds (t_TotalPaused trip)\<rparr>"

text \<open>
  The unique index \<open>idx_trips_active_driver\<close> on \<open>trips (driver_id) WHERE status != 'ENDED'\<close>:
  \<open>activeClash ts trip\<close> holds when writing \<open>trip\<close> would give its driver a second row
  that is not ENDED.
\<close>

definition activeClash :: "Trip list \<Rightarrow> Trip \<Rightarrow> bool" where
  "activeClash ts trip =
     (t_Status trip \<noteq> ENDED \<and>
      find (\<lambda>t. t_ID t \<noteq> t_ID trip \<and> t_DriverID t = t_DriverID trip \<and> t_Status t \<noteq> ENDED) ts
        \<noteq> None)"

definition trip_Create :: "env \<Rightarrow> world \<Rightarrow> Trip \<Rightarrow> error + world" where
  "trip_Create e w trip =
     (case faults e TripCreate of
        Some err \<Rightarrow> Inl err
      | None \<Rightarrow>
          if find (\<lambda>t. t_ID t = t_ID trip) (trips w) \<noteq> None then
            Inl (ErrExternal ''duplicate key value violates unique constraint trips_pkey'')
          else if activeClash (trips w) trip then
            Inl (ErrExternal ''duplicate key value violates unique constraint idx_trips_active_driver'')
          else Inr (w\<lparr>trips := trips w @ [storedTrip trip]\<rparr>))"

definition trip_GetByID :: "env \<Rightarrow> world \<Rightarrow> string \<Rightarrow> error + Trip" where
  "trip_GetByID e w ident =
     (case faults e TripGetByID of
        Some err \<Rightarrow> Inl err
      | None \<Rightarrow>
          (case find (\<lambda>t. t_ID t = ident) (trips w) of
             None \<Rightarrow> Inl ErrNotFound
           | Some trip \<Rightarrow> Inr trip))"

text \<open>\<open>GetActiveByDriverID\<close>: no row is \<open>nil, nil\<close>, modelled as \<open>Inr None\<close>.\<close>

definition trip_GetActiveByDriverID :: "env \<Rightarrow> world \<Rightarrow> string \<Rightarrow> error + Trip option" where
  "trip_GetActiveByDriverID e w driverID =
     (case faults e TripGetActiveByDriverID of
        Some err \<Rightarrow> Inl err
      | None \<Rightarrow> Inr (find (\<lambda>t. t_DriverID t = driverID \<and> t_Status t \<noteq> ENDED) (trips w)))"

definition trip_Update :: "env \<Rightarrow> world \<Rightarrow> Trip \<Rightarrow> error + world" where
  "trip_Update e w trip =
     (case faults e TripUpdate of
        Some err \<Rightarrow> Inl err
      | None \<Rightarrow>
          if find (\<lambda>t. t_ID t = t_ID trip) (trips w) = None then Inl ErrNotFound
          else if activeClash (trips w) trip then
            Inl (ErrExternal ''duplicate key value violates unique constraint idx_trips_active_driver'')
          else Inr (w\<lparr>trips :=
                 map (\<lambda>t. if t_ID t = t_ID trip then storedTrip trip else t) (trips w)\<rparr>))"

subsection \<open>Rides\<close>

text \<open>
  \<open>Update\<close> writes every column except \<open>created_at\<close>; a surge multiplier below 1 is
  written as 1 and an empty payment method as CASH.
\<close>

definition storedRide :: "Ride \<Rightarrow> Ride \<Rightarrow> Ride" where
  "storedRide old ride =
     ride\<lparr>r_SurgeMultiplier := (if r_SurgeMultiplier ride < 1 then 1 else r_SurgeMultiplier ride),
          r_PaymentMethod := (case r_PaymentMethod ride of None \<Rightarrow> Some CASH | Some m \<Rightarrow> Some m),
          r_CreatedAt := r_CreatedAt old\<rparr>"

definition ride_GetByID :: "env \<Rightarrow> world \<Rightarrow> string \<Rightarrow> error + Ride" where
  "ride_GetByID e w ident =
     (case faults e RideGetByID of
        Some err \<Rightarrow> Inl err
      | None \<Rightarrow>
          (case find (\<lambda>r. r_ID r = ident) (rides w) of
             None \<Rightarrow> Inl ErrNotFound
           | Some ride \<Rightarrow> Inr ride))"

definition ride_Update :: "env \<Rightarrow> world \<Rightarrow> Ride \<Rightarrow> error + world" where
  "ride_Update e w ride =
     (case faults e RideUpdate of
        Some err \<Rightarrow> Inl err
      | None \<Rightarrow>
          if find (\<lambda>r. r_ID r = r_ID ride) (rides w) = None then Inl ErrNotFound
          else Inr (w\<lparr>rides :=
                 map (\<lambda>r. if r_ID r = r_ID ride then storedRide r ride else r) (rides w)\<rparr>))"

subsection \<open>Drivers\<close>

text \<open>
  \<open>GetByID\<close> is called at two places of the matcher: the call site is a parameter, so
  that a failure can be injected at either.
\<close>

definition driver_GetByID :: "env \<Rightarrow> world \<Rightarrow> callsite \<Rightarrow> string \<Rightarrow> error + Driver" where
  "driver_GetByID e w site ident =
     (case faults e site of
        Some err \<Rightarrow> Inl err
      | None \<Rightarrow>
          (case find (\<lambda>d. d_ID d = ident) (drivers w) of
             None \<Rightarrow> Inl ErrNotFound
           | Some driver \<Rightarrow> Inr driver))"

definition driver_UpdateStatus :: "env \<Rightarrow> world \<Rightarrow> string \<Rightarrow> DriverStatus \<Rightarrow> error + world" where
  "driver_UpdateStatus e w ident status =
     (case faults e DriverUpdateStatus of
        Some err \<Rightarrow> Inl err
      | None \<Rightarrow>
          if find (\<lambda>d. d_ID d = ident) (drivers w) = None then Inl ErrNotFound
          else Inr (w\<lparr>drivers :=
                 map (\<lambda>d. if d_ID d = ident then d\<lparr>d_Status := status\<rparr> else d) (drivers w)\<rparr>))"

section \<open>PaymentService (internal/service/payment.go)\<close>

record ProcessPaymentRequest =
  pp_TripID :: string
  pp_Amount :: float64

text \<open>\<open>psp.Charge\<close>: the call is recorded in \<open>charged\<close>; its answer comes from \<open>env\<close>.\<close>

definition pspCharge :: "env \<Rightarrow> world \<Rightarrow> float64 \<Rightarrow> (error + bool) \<times> world" where
  "pspCharge e w amount = (Charge e amount, w\<lparr>charged := charged w @ [amount]\<rparr>)"

text \<open>
  \<open>ProcessPayment\<close>; \<open>newID\<close> is the value of \<open>uuid.New().String()\<close>. The result is the
  returned pair (payment or error) together with the world the call leaves behind.
\<close>

definition ProcessPayment ::
  "env \<Rightarrow> world \<Rightarrow> ProcessPaymentRequest \<Rightarrow> string \<Rightarrow> (error + Payment) \<times> world" where
  "ProcessPayment e w req newID =
     (if pp_TripID req = [] then (Inl ErrInvalidTripID, w)
      else if pp_Amount req \<le> 0 then (Inl ErrInvalidPaymentAmount, w)
      else
        (let idempotencyKey = ''payment:'' @ pp_TripID req
         in case payment_GetByIdempotencyKey e w idempotencyKey of
              Inl err \<Rightarrow> (Inl err, w)
            | Inr (Some existingPayment) \<Rightarrow> (Inr existingPayment, w)
            | Inr None \<Rightarrow>
                (let payment = \<lparr>p_ID = newID, p_TripID = pp_TripID req,
                                p_Amount = pp_Amount req, p_Status = PENDING,
                                p_IdempotencyKey = idempotencyKey\<rparr>
                 in case payment_Create e w payment of
                      Inl err \<Rightarrow> (Inl err, w)
                    | Inr w1 \<Rightarrow>
                        (case pspCharge e w1 (pp_Amount req) of
                           (Inl err, w2) \<Rightarrow>
                             (Inr (payment\<lparr>p_Status := FAILED\<rparr>),
                              (case payment_UpdateStatus e w2 (p_ID payment) FAILED of
                                 Inl err2 \<Rightarrow> w2
                               | Inr w3 \<Rightarrow> w3))
                         | (Inr success, w2) \<Rightarrow>
                             (if success then
                                (case payment_UpdateStatus e w2 (p_ID payment) SUCCESS of
                                   Inl err \<Rightarrow> (Inl err, w2)
                                 | Inr w3 \<Rightarrow> (Inr (payment\<lparr>p_Status := SUCCESS\<rparr>), w3))
                              else
                                (case payment_UpdateStatus e w2 (p_ID payment) FAILED of
                                   Inl err \<Rightarrow> (Inl err, w2)
                                 | Inr w3 \<Rightarrow> (Inr (payment\<lparr>p_Status := FAILED\<rparr>), w3)))))))"

section \<open>ReceiptService\<close>

record Receipt =
  rc_ID :: string
  rc_TripID :: string
  rc_RideID :: string
  rc_DriverID :: string
  rc_RiderID :: string
  rc_PickupLat :: float64
  rc_PickupLng :: float64
  rc_DestinationLat :: float64
  rc_DestinationLng :: float64
  rc_BaseFare :: float64
  rc_SurgeMultiplier :: float64
  rc_SurgeAmount :: float64
  rc_TotalFare :: float64
  rc_PaymentMethod :: "PaymentMethod option"
  rc_PaymentStatus :: PaymentStatus
  rc_Duration :: duration
  rc_Distance :: float64
  rc_StartedAt :: time
  rc_EndedAt :: time
  rc_CreatedAt :: time

definition calculateBaseFare :: "Trip \<Rightarrow> float64" where
  "calculateBaseFare trip =
     (let duration = (t_EndedAt trip - t_StartedAt trip) - t_TotalPaused trip;
          minutes = of_int duration / 60000000000;
          fare = 2 + (minutes * (1 / 2))
      in if fare < 5 then 5 else fare)"

definition estimateDistance :: "float64 \<Rightarrow> float64 \<Rightarrow> float64 \<Rightarrow> float64 \<Rightarrow> float64" where
  "estimateDistance lat1 lng1 lat2 lng2 =
     (let latDiff = (lat2 - lat1) * 111;
          lngDiff = (lng2 - lng1) * 111 * (85 / 100);
          distance = latDiff * latDiff + lngDiff * lngDiff
      in if distance > 0 then distance else 0)"

text \<open>
  \<open>GenerateReceipt\<close> for a trip and a ride that are present (the only way \<open>EndTrip\<close>
  calls it); the notification it sends only writes a log line.
\<close>

definition GenerateReceipt :: "Trip \<Rightarrow> Ride \<Rightarrow> Payment option \<Rightarrow> string \<Rightarrow> time \<Rightarrow> Receipt" where
  "GenerateReceipt trip ride payment newID now =
     (let baseFare = calculateBaseFare trip;
          surgeMultiplier = (if r_SurgeMultiplier ride < 1 then 1 else r_SurgeMultiplier ride);
          surgeAmount = baseFare * (surgeMultiplier - 1);
          totalFare = t_Fare trip;
          duration = (t_EndedAt trip - t_StartedAt trip) - t_TotalPaused trip;
          distance = estimateDistance (r_PickupLat ride) (r_PickupLng ride)
                       (r_DestinationLat ride) (r_DestinationLng ride);
          paymentStatus = (case payment of None \<Rightarrow> PENDING | Some p \<Rightarrow> p_Status p)
      in \<lparr>rc_ID = newID, rc_TripID = t_ID trip, rc_RideID = r_ID ride,
          rc_DriverID = t_DriverID trip, rc_RiderID = r_RiderID ride,
          rc_PickupLat = r_PickupLat ride, rc_PickupLng = r_PickupLng ride,
          rc_DestinationLat = r_DestinationLat ride, rc_DestinationLng = r_DestinationLng ride,
          rc_BaseFare = baseFare, rc_SurgeMultiplier = surgeMultiplier,
          rc_SurgeAmount = surgeAmount, rc_TotalFare = totalFare,
          rc_PaymentMethod = r_PaymentMethod ride, rc_PaymentStatus = paymentStatus,
          rc_Duration = duration, rc_Distance = distance,
          rc_StartedAt = t_StartedAt trip, rc_EndedAt = t_EndedAt trip, rc_CreatedAt = now\<rparr>)"

section \<open>TripService (internal/service/trip.go)\<close>

text \<open>
  \<open>calculateFare\<close>: \<open>duration.Minutes()\<close> is the duration in nanoseconds divided by
  \<open>6 * 10^10\<close>.
\<close>

definition calculateFare :: "time \<Rightarrow> time \<Rightarrow> duration \<Rightarrow> float64" where
  "calculateFare startTime endTime totalPaused =
     (let baseFare = 2;
          perMinuteRate = 1 / 2;
          minimumFare = 5;
          duration = (endTime - startTime) - totalPaused;
          minutes = of_int duration / 60000000000;
          fare = baseFare + (minutes * perMinuteRate)
      in if fare < minimumFare then minimumFare else fare)"

record StartTripRequest =
  st_RideID :: string
  st_DriverID :: string

text \<open>
  The transaction of \<open>StartTrip\<close>: the three writes and the commit. An \<open>Inl\<close> is a
  failed step, after which the deferred \<open>tx.Rollback()\<close> discards the writes.
\<close>

definition startTripTx :: "env \<Rightarrow> world \<Rightarrow> Trip \<Rightarrow> Ride \<Rightarrow> string \<Rightarrow> error + world" where
  "startTripTx e w trip ride driverID =
     (case trip_Create e w trip of
        Inl err \<Rightarrow> Inl err
      | Inr w1 \<Rightarrow>
          (case ride_Update e w1 (ride\<lparr>r_Status := IN_TRIP\<rparr>) of
             Inl err \<Rightarrow> Inl err
           | Inr w2 \<Rightarrow>
               (case driver_UpdateStatus e w2 driverID ON_TRIP of
                  Inl err \<Rightarrow> Inl err
                | Inr w3 \<Rightarrow>
                    (case faults e Commit of
                       Some err \<Rightarrow> Inl err
                     | None \<Rightarrow> Inr w3))))"

text \<open>
  \<open>StartTrip\<close>; \<open>newID\<close> is the value of \<open>uuid.New().String()\<close> and \<open>now\<close> the value of
  \<open>time.Now()\<close>.
\<close>

definition StartTrip ::
  "env \<Rightarrow> world \<Rightarrow> StartTripRequest \<Rightarrow> string \<Rightarrow> time \<Rightarrow> (error + Trip) \<times> world" where
  "StartTrip e w req newID now =
     (if st_RideID req = [] then (Inl ErrInvalidRideID, w)
      else if st_DriverID req = [] then (Inl ErrInvalidDriverID, w)
      else
        (case trip_GetActiveByDriverID e w (st_DriverID req) of
           Inl err \<Rightarrow> (Inl err, w)
         | Inr (Some existingTrip) \<Rightarrow> (Inl ErrDriverHasActiveTrip, w)
         | Inr None \<Rightarrow>
             (case ride_GetByID e w (st_RideID req) of
                Inl err \<Rightarrow> (Inl err, w)
              | Inr ride \<Rightarrow>
                  if r_Status ride \<noteq> ASSIGNED then (Inl ErrRideNotAssigned, w)
                  else if r_AssignedDriverID ride \<noteq> st_DriverID req then
                    (Inl ErrDriverNotAssignedToRide, w)
                  else
                    (case faults e BeginTx of
                       Some err \<Rightarrow> (Inl err, w)
                     | None \<Rightarrow>
                         (let trip = \<lparr>t_ID = newID, t_RideID = st_RideID req,
                                      t_DriverID = st_DriverID req, t_Status = STARTED,
                                      t_Fare = 0, t_StartedAt = now, t_EndedAt = 0,
                                      t_PausedAt = 0, t_TotalPaused = 0\<rparr>
                          in case startTripTx e w trip ride (st_DriverID req) of
                               Inl err \<Rightarrow> (Inl err, w)
                             | Inr w1 \<Rightarrow> (Inr trip, w1))))))"

record EndTripResponse =
  resp_Trip :: Trip
  resp_Payment :: "Payment option"
  resp_Receipt :: "Receipt option"

definition endTripTx :: "env \<Rightarrow> world \<Rightarrow> Trip \<Rightarrow> Ride \<Rightarrow> error + world" where
  "endTripTx e w trip ride =
     (case trip_Update e w trip of
        Inl err \<Rightarrow> Inl err
      | Inr w1 \<Rightarrow>
          (case ride_Update e w1 ride of
             Inl err \<Rightarrow> Inl err
           | Inr w2 \<Rightarrow>
               (case driver_UpdateStatus e w2 (t_DriverID trip) ONLINE of
                  Inl err \<Rightarrow> Inl err
                | Inr w3 \<Rightarrow>
                    (case faults e Commit of
                       Some err \<Rightarrow> Inl err
                     | None \<Rightarrow> Inr w3))))"

text \<open>
  The clock and identifier inputs of one \<open>EndTrip\<close> call: the reading behind
  \<open>time.Since(trip.PausedAt)\<close>, \<open>endTime := time.Now()\<close>, the identifier of the
  payment, and the identifier and creation time of the receipt.
\<close>

record EndTripInputs =
  in_SinceNow :: time
  in_EndTime :: time
  in_PaymentID :: string
  in_ReceiptID :: string
  in_ReceiptNow :: time

text \<open>
  The two computations of \<open>EndTrip\<close> between its reads and its transaction: the
  pause that is still running is added to \<open>TotalPaused\<close>, and the fare is the result
  of \<open>calculateFare\<close> times the ride's surge multiplier, read as 1 when below 1.
\<close>

definition addRemainingPause :: "Trip \<Rightarrow> time \<Rightarrow> Trip" where
  "addRemainingPause trip sinceNow =
     (if t_Status trip = PAUSED \<and> t_PausedAt trip \<noteq> 0
      then trip\<lparr>t_TotalPaused := t_TotalPaused trip + (sinceNow - t_PausedAt trip)\<rparr>
      else trip)"

definition surgedFare :: "Trip \<Rightarrow> Ride \<Rightarrow> time \<Rightarrow> float64" where
  "surgedFare trip ride endTime =
     (let baseFare = calculateFare (t_StartedAt trip) endTime (t_TotalPaused trip);
          surgeMultiplier = (if r_SurgeMultiplier ride < 1 then 1 else r_SurgeMultiplier ride)
      in baseFare * surgeMultiplier)"

text \<open>
  \<open>EndTrip\<close>. The notifications it sends only write log lines and are left out.
\<close>

definition EndTrip ::
  "env \<Rightarrow> world \<Rightarrow> string \<Rightarrow> EndTripInputs \<Rightarrow> (error + EndTripResponse) \<times> world" where
  "EndTrip e w tripID inp =
     (if tripID = [] then (Inl ErrInvalidTripID, w)
      else
        (case trip_GetByID e w tripID of
           Inl err \<Rightarrow> (Inl err, w)
         | Inr trip0 \<Rightarrow>
             if t_Status trip0 = ENDED then (Inl ErrTripAlreadyEnded, w)
             else
               (let trip1 = addRemainingPause trip0 (in_SinceNow inp)
                in case ride_GetByID e w (t_RideID trip1) of
                     Inl err \<Rightarrow> (Inl err, w)
                   | Inr ride0 \<Rightarrow>
                       (let endTime = in_EndTime inp;
                            fare = surgedFare trip1 ride0 endTime
                        in case faults e BeginTx of
                             Some err \<Rightarrow> (Inl err, w)
                           | None \<Rightarrow>
                               (let trip = trip1\<lparr>t_Status := ENDED, t_Fare := fare,
                                                 t_EndedAt := endTime\<rparr>;
                                    ride = ride0\<lparr>r_Status := COMPLETED\<rparr>
                                in case endTripTx e w trip ride of
                                     Inl err \<Rightarrow> (Inl err, w)
                                   | Inr w1 \<Rightarrow>
                                       (case ProcessPayment e w1
                                               \<lparr>pp_TripID = t_ID trip, pp_Amount = fare\<rparr>
                                               (in_PaymentID inp) of
                                          (paid, w2) \<Rightarrow>
                                            (let payment = (case paid of
                                                              Inl err \<Rightarrow> None
                                                            | Inr p \<Rightarrow> Some p);
                                                 receipt = (if receiptService e
                                                            then Some (GenerateReceipt trip ride payment
                                                                   (in_ReceiptID inp) (in_ReceiptNow inp))
                                                            else None)
                                             in (Inr \<lparr>resp_Trip = trip, resp_Payment = payment,
                                                      resp_Receipt = receipt\<rparr>, w2))))))))"

section \<open>RideService: CancelRide\<close>

record CancelRideRequest =
  cr_RideID :: string
  cr_CancelledBy :: string
  cr_Reason :: string

text \<open>
  \<open>CancelRide\<close>; \<open>now\<close> is the value of \<open>time.Now()\<close>. The notification it sends only
  writes a log line and is left out.
\<close>

definition CancelRide ::
  "env \<Rightarrow> world \<Rightarrow> CancelRideRequest \<Rightarrow> time \<Rightarrow> (error + Ride) \<times> world" where
  "CancelRide e w req now =
     (if cr_RideID req = [] then (Inl ErrInvalidRideID, w)
      else
        (case ride_GetByID e w (cr_RideID req) of
           Inl err \<Rightarrow> (Inl err, w)
         | Inr ride0 \<Rightarrow>
             if r_Status ride0 = CANCELLED then (Inl ErrRideAlreadyCancelled, w)
             else if r_Status ride0 \<noteq> REQUESTED \<and> r_Status ride0 \<noteq> ASSIGNED then
               (Inl ErrRideCannotBeCancelled, w)
             else
               (let ride = ride0\<lparr>r_Status := CANCELLED, r_CancelledAt := now,
                                 r_CancelReason := cr_Reason req\<rparr>
                in case ride_Update e w ride of
                     Inl err \<Rightarrow> (Inl err, w)
                   | Inr w1 \<Rightarrow> (Inr ride, w1))))"

section \<open>Redis locks and cache (internal/redis)\<close>

text \<open>
  A lock is the presence of its key; \<open>SetNX\<close> answers whether it has just written the
  key. The expiry of a key is an event outside a call and is not part of a call's
  effect. A failed \<open>Release\<close> or cache write is ignored by the callers and leaves the
  keys as they are.
\<close>

definition setNX :: "world \<Rightarrow> string \<Rightarrow> bool \<times> world" where
  "setNX w key =
     (if key \<in> set (locks w) then (False, w) else (True, w\<lparr>locks := key # locks w\<rparr>))"

definition AcquireRideLock :: "env \<Rightarrow> world \<Rightarrow> string \<Rightarrow> error + bool \<times> world" where
  "AcquireRideLock e w rideID =
     (case faults e RideLockAcquire of
        Some err \<Rightarrow> Inl err
      | None \<Rightarrow> Inr (setNX w (''lock:ride:'' @ rideID)))"

definition ReleaseRideLock :: "env \<Rightarrow> world \<Rightarrow> string \<Rightarrow> world" where
  "ReleaseRideLock e w rideID =
     (case faults e RideLockRelease of
        Some err \<Rightarrow> w
      | None \<Rightarrow> w\<lparr>locks := removeAll (''lock:ride:'' @ rideID) (locks w)\<rparr>)"

definition AcquireDriverLock :: "env \<Rightarrow> world \<Rightarrow> string \<Rightarrow> error + bool \<times> world" where
  "AcquireDriverLock e w driverID =
     (case faults e (DriverLockAcquire driverID) of
        Some err \<Rightarrow> Inl err
      | None \<Rightarrow> Inr (setNX w (''lock:driver:'' @ driverID)))"

definition ReleaseDriverLock :: "env \<Rightarrow> world \<Rightarrow> string \<Rightarrow> world" where
  "ReleaseDriverLock e w driverID =
     (case faults e (DriverLockRelease driverID) of
        Some err \<Rightarrow> w
      | None \<Rightarrow> w\<lparr>locks := removeAll (''lock:driver:'' @ driverID) (locks w)\<rparr>)"

text \<open>
  \<open>GetDriversBatch\<close>: the cached drivers among the requested identifiers and the
  identifiers that are missing. The Go code walks a map, so the order of the missing
  identifiers is not fixed there; here it is the order of the request. A failed
  pipeline makes every identifier missing.
\<close>

definition GetDriversBatch ::
  "env \<Rightarrow> world \<Rightarrow> string list \<Rightarrow> (string \<times> CachedDriver) list \<times> string list" where
  "GetDriversBatch e w driverIDs =
     (if driverIDs = [] then ([], [])
      else
        (let ids = remdups driverIDs
         in case faults e CacheGetDriversBatch of
              Some err \<Rightarrow> ([], ids)
            | None \<Rightarrow>
                (concat (map (\<lambda>i. case map_of (driverCache w) i of
                                      None \<Rightarrow> []
                                    | Some c \<Rightarrow> [(i, c)]) ids),
                 filter (\<lambda>i. map_of (driverCache w) i = None) ids)))"

section \<open>MatchingService (internal/service/matching.go)\<close>

record MatchRequest =
  m_RideID :: string
  m_Lat :: float64
  m_Lng :: float64
  m_Tier :: "DriverTier option"
  m_RadiusKm :: float64

record MatchResult =
  mr_DriverID :: string
  mr_Ride :: Ride

definition defaultSearchRadiusKm :: float64 where
  "defaultSearchRadiusKm = 5"

definition getDriversBatchOptimized ::
  "env \<Rightarrow> world \<Rightarrow> string list \<Rightarrow> (string \<times> CachedDriver) list \<times> string list" where
  "getDriversBatchOptimized e w driverIDs =
     (if \<not> cacheStore e then ([], driverIDs) else GetDriversBatch e w driverIDs)"

text \<open>
  \<open>cacheDriverAsync\<close> starts a goroutine that writes the cache entry; the write is
  taken as done at once. Nothing in \<open>Match\<close> reads the cache after it.
\<close>

definition cacheDriverAsync :: "env \<Rightarrow> world \<Rightarrow> Driver \<Rightarrow> world" where
  "cacheDriverAsync e w driver =
     (if \<not> cacheStore e then w
      else
        (case faults e (CacheSetDriver (d_ID driver)) of
           Some err \<Rightarrow> w
         | None \<Rightarrow>
             w\<lparr>driverCache :=
                 (d_ID driver,
                  \<lparr>c_ID = d_ID driver, c_Name = d_Name driver, c_Phone = d_Phone driver,
                   c_Status = d_Status driver, c_Tier = d_Tier driver\<rparr>)
                 # filter (\<lambda>kv. fst kv \<noteq> d_ID driver) (driverCache w)\<rparr>))"

definition cachedToDriver :: "CachedDriver \<Rightarrow> Driver" where
  "cachedToDriver cached =
     \<lparr>d_ID = c_ID cached, d_Name = c_Name cached, d_Phone = c_Phone cached,
      d_Status = c_Status cached, d_Tier = c_Tier cached\<rparr>"

definition invalidateDriverCache :: "env \<Rightarrow> world \<Rightarrow> string \<Rightarrow> world" where
  "invalidateDriverCache e w driverID =
     (if \<not> cacheStore e then w
      else
        (let w1 = (case faults e (CacheInvalidateDriver driverID) of
                     Some err \<Rightarrow> w
                   | None \<Rightarrow> w\<lparr>driverCache :=
                                 filter (\<lambda>kv. fst kv \<noteq> driverID) (driverCache w)\<rparr>)
         in case faults e (CacheRemoveAvailableDriver driverID) of
              Some err \<Rightarrow> w1
            | None \<Rightarrow> w1\<lparr>availableDrivers := removeAll driverID (availableDrivers w1)\<rparr>))"

definition invalidateRideCache :: "env \<Rightarrow> world \<Rightarrow> string \<Rightarrow> world" where
  "invalidateRideCache e w rideID =
     (if \<not> cacheStore e then w
      else
        (case faults e CacheInvalidateRide of
           Some err \<Rightarrow> w
         | None \<Rightarrow> w\<lparr>rideCacheKeys := removeAll rideID (rideCacheKeys w)\<rparr>))"

definition assignDriver :: "env \<Rightarrow> world \<Rightarrow> Ride \<Rightarrow> Driver \<Rightarrow> error + MatchResult \<times> world" where
  "assignDriver e w ride0 driver =
     (case faults e BeginTx of
        Some err \<Rightarrow> Inl err
      | None \<Rightarrow>
          (let ride = ride0\<lparr>r_Status := ASSIGNED, r_AssignedDriverID := d_ID driver\<rparr>
           in case ride_Update e w ride of
                Inl err \<Rightarrow> Inl err
              | Inr w1 \<Rightarrow>
                  (case driver_UpdateStatus e w1 (d_ID driver) ON_TRIP of
                     Inl err \<Rightarrow> Inl err
                   | Inr w2 \<Rightarrow>
                       (case faults e Commit of
                          Some err \<Rightarrow> Inl err
                        | None \<Rightarrow> Inr (\<lparr>mr_DriverID = d_ID driver, mr_Ride = ride\<rparr>, w2)))))"

text \<open>The loop that reads the drivers missing from the cache out of the database.\<close>

fun fetchMissing ::
  "env \<Rightarrow> world \<Rightarrow> string list \<Rightarrow> (string \<times> Driver) list
     \<Rightarrow> (error + (string \<times> Driver) list) \<times> world" where
  "fetchMissing e w [] dbDrivers = (Inr dbDrivers, w)"
| "fetchMissing e w (i # ids) dbDrivers =
     (case driver_GetByID e w (DriverGetByID i) i of
        Inl err \<Rightarrow>
          if err = ErrNotFound then fetchMissing e w ids dbDrivers else (Inl err, w)
      | Inr driver \<Rightarrow>
          fetchMissing e (cacheDriverAsync e w driver) ids ((i, driver) # dbDrivers))"

text \<open>
  The first part of the loop body of \<open>Match\<close>: the driver taken from the cache or from
  the database read, or nothing when the loop continues with the next candidate.
\<close>

definition pickDriver ::
  "MatchRequest \<Rightarrow> (string \<times> CachedDriver) list \<Rightarrow> (string \<times> Driver) list \<Rightarrow> string
     \<Rightarrow> Driver option" where
  "pickDriver req cachedDrivers dbDrivers driverID =
     (case map_of cachedDrivers driverID of
        Some cached \<Rightarrow>
          if c_Status cached \<noteq> ONLINE then None
          else if m_Tier req \<noteq> None \<and> Some (c_Tier cached) \<noteq> m_Tier req then None
          else Some (cachedToDriver cached)
      | None \<Rightarrow> map_of dbDrivers driverID)"

text \<open>The loop over the candidates, in the order of the location store.\<close>

fun tryDrivers ::
  "env \<Rightarrow> world \<Rightarrow> MatchRequest \<Rightarrow> Ride \<Rightarrow> (string \<times> CachedDriver) list
     \<Rightarrow> (string \<times> Driver) list \<Rightarrow> DriverLocation list \<Rightarrow> (error + MatchResult) \<times> world" where
  "tryDrivers e w req ride cachedDrivers dbDrivers [] = (Inl ErrNoDriverAvailable, w)"
| "tryDrivers e w req ride cachedDrivers dbDrivers (loc # locs) =
     (case pickDriver req cachedDrivers dbDrivers (l_DriverID loc) of
        None \<Rightarrow> tryDrivers e w req ride cachedDrivers dbDrivers locs
      | Some driver \<Rightarrow>
          if d_Status driver \<noteq> ONLINE then
            tryDrivers e w req ride cachedDrivers dbDrivers locs
          else if m_Tier req \<noteq> None \<and> Some (d_Tier driver) \<noteq> m_Tier req then
            tryDrivers e w req ride cachedDrivers dbDrivers locs
          else
            (case AcquireDriverLock e w (l_DriverID loc) of
               Inl err \<Rightarrow> (Inl err, w)
             | Inr (locked, w1) \<Rightarrow>
                 if \<not> locked then tryDrivers e w1 req ride cachedDrivers dbDrivers locs
                 else
                   (case driver_GetByID e w1 (DriverRecheck (l_DriverID loc)) (l_DriverID loc) of
                      Inl err \<Rightarrow>
                        if err = ErrNotFound then
                          tryDrivers e (ReleaseDriverLock e w1 (l_DriverID loc)) req ride
                            cachedDrivers dbDrivers locs
                        else (Inl err, ReleaseDriverLock e w1 (l_DriverID loc))
                    | Inr freshDriver \<Rightarrow>
                        if d_Status freshDriver \<noteq> ONLINE then
                          tryDrivers e
                            (invalidateDriverCache e (ReleaseDriverLock e w1 (l_DriverID loc))
                               (l_DriverID loc))
                            req ride cachedDrivers dbDrivers locs
                        else
                          (case assignDriver e w1 ride freshDriver of
                             Inl err \<Rightarrow> (Inl err, ReleaseDriverLock e w1 (l_DriverID loc))
                           | Inr (result, w2) \<Rightarrow>
                               (Inr result,
                                invalidateRideCache e
                                  (invalidateDriverCache e w2 (l_DriverID loc)) (r_ID ride))))))"

text \<open>\<open>Match\<close> from the read of the ride on, that is, below the ride lock.\<close>

definition matchLocked ::
  "env \<Rightarrow> world \<Rightarrow> MatchRequest \<Rightarrow> float64 \<Rightarrow> (error + MatchResult) \<times> world" where
  "matchLocked e w req radiusKm =
     (case ride_GetByID e w (m_RideID req) of
        Inl err \<Rightarrow> (Inl err, w)
      | Inr ride \<Rightarrow>
          if r_Status ride \<noteq> REQUESTED then (Inl ErrRideNotInRequestedState, w)
          else
            (case FindNearbyDrivers e (m_Lat req) (m_Lng req) radiusKm of
               Inl err \<Rightarrow> (Inl err, w)
             | Inr nearbyDrivers \<Rightarrow>
                 if length nearbyDrivers = 0 then (Inl ErrNoDriverAvailable, w)
                 else
                   (case getDriversBatchOptimized e w (map l_DriverID nearbyDrivers) of
                      (cachedDrivers, missingIDs) \<Rightarrow>
                        (case fetchMissing e w missingIDs [] of
                           (Inl err, w1) \<Rightarrow> (Inl err, w1)
                         | (Inr dbDrivers, w1) \<Rightarrow>
                             tryDrivers e w1 req ride cachedDrivers dbDrivers nearbyDrivers))))"

text \<open>
  \<open>Match\<close>: with a cache store the ride lock is taken first and released by the
  deferred call when the function returns.
\<close>

definition Match :: "env \<Rightarrow> world \<Rightarrow> MatchRequest \<Rightarrow> (error + MatchResult) \<times> world" where
  "Match e w req =
     (let radiusKm = (if m_RadiusKm req \<le> 0 then defaultSearchRadiusKm else m_RadiusKm req)
      in if cacheStore e then
           (case AcquireRideLock e w (m_RideID req) of
              Inl err \<Rightarrow> (Inl err, w)
            | Inr (locked, w1) \<Rightarrow>
                if \<not> locked then (Inl ErrRideNotInRequestedState, w1)
                else
                  (case matchLocked e w1 req radiusKm of
                     (result, w2) \<Rightarrow> (result, ReleaseRideLock e w2 (m_RideID req))))
         else matchLocked e w req radiusKm)"

section \<open>The fare as the specification words it\<close>

text \<open>
  Section 4.7 of the specification: \<open>base := base_fare + per_minute_rate *
  (effective_seconds / 60)\<close>, raised to \<open>minimum_fare\<close> when smaller, and \<open>total :=
  base * max(1.0, surge_multiplier)\<close>, with the default parameters 2.0, 0.5 and 5.0.
  The effective time is given in nanoseconds.
\<close>

definition spec_fare :: "duration \<Rightarrow> float64 \<Rightarrow> float64" where
  "spec_fare effective surge_multiplier =
     (let base_fare = 2;
          per_minute_rate = 1 / 2;
          minimum_fare = 5;
          effective_seconds = of_int effective / 1000000000;
          base = base_fare + per_minute_rate * (effective_seconds / 60);
          base' = (if base < minimum_fare then minimum_fare else base)
      in base' * max 1 surge_multiplier)"

section \<open>Example data\<close>

definition ex_env :: env where
  "ex_env = \<lparr>faults = (\<lambda>site. None), Charge = (\<lambda>amount. Inr True),
             FindNearbyDrivers = (\<lambda>lat lng radiusKm. Inr []),
             cacheStore = True, receiptService = True\<rparr>"

definition ex_driver :: "DriverStatus \<Rightarrow> Driver" where
  "ex_driver status =
     \<lparr>d_ID = ''driver-1'', d_Name = ''Asha'', d_Phone = ''555-0101'',
      d_Status = status, d_Tier = BASIC\<rparr>"

definition ex_ride :: "RideStatus \<Rightarrow> string \<Rightarrow> Ride" where
  "ex_ride status driverID =
     \<lparr>r_ID = ''ride-1'', r_RiderID = ''rider-1'',
      r_PickupLat = 12971 / 1000, r_PickupLng = 77594 / 1000,
      r_DestinationLat = 12296 / 1000, r_DestinationLng = 76639 / 1000,
      r_Status = status, r_AssignedDriverID = driverID, r_SurgeMultiplier = 3 / 2,
      r_PaymentMethod = Some CARD, r_CreatedAt = 1000, r_CancelledAt = 0,
      r_CancelReason = []\<rparr>"

definition ex_trip :: "TripStatus \<Rightarrow> Trip" where
  "ex_trip status =
     \<lparr>t_ID = ''trip-1'', t_RideID = ''ride-1'', t_DriverID = ''driver-1'',
      t_Status = status, t_Fare = 0, t_StartedAt = 1000000000, t_EndedAt = 0,
      t_PausedAt = 0, t_TotalPaused = 0\<rparr>"

definition ex_payment :: "PaymentStatus \<Rightarrow> Payment" where
  "ex_payment status =
     \<lparr>p_ID = ''pay-1'', p_TripID = ''trip-1'', p_Amount = 21 / 2, p_Status = status,
      p_IdempotencyKey = ''payment:trip-1''\<rparr>"

definition ex_world :: "Ride list \<Rightarrow> Driver list \<Rightarrow> Trip list \<Rightarrow> Payment list \<Rightarrow> world" where
  "ex_world rs ds ts ps =
     \<lparr>rides = rs, drivers = ds, trips = ts, payments = ps, charged = [], locks = [],
      driverCache = [], rideCacheKeys = [], availableDrivers = []\<rparr>"

definition ex_inputs :: "time \<Rightarrow> EndTripInputs" where
  "ex_inputs endTime =
     \<lparr>in_SinceNow = endTime, in_EndTime = endTime, in_PaymentID = ''pay-1'',
      in_ReceiptID = ''receipt-1'', in_ReceiptNow = endTime\<rparr>"

text \<open>A ride with the given status whose pickup is at \<open>(lat, lng)\<close>.\<close>

definition rideAt :: "string \<Rightarrow> RideStatus \<Rightarrow> float64 \<Rightarrow> float64 \<Rightarrow> Ride" where
  "rideAt ident status lat lng =
     \<lparr>r_ID = ident, r_RiderID = ''rider-1'', r_PickupLat = lat, r_PickupLng = lng,
      r_DestinationLat = lat, r_DestinationLng = lng, r_Status = status,
      r_AssignedDriverID = [], r_SurgeMultiplier = 1, r_PaymentMethod = Some CASH,
      r_CreatedAt = 1, r_CancelledAt = 0, r_CancelReason = []\<rparr>"


definition ex_env_psp_down :: env where
  "ex_env_psp_down = ex_env\<lparr>Charge := (\<lambda>amount. Inl (ErrExternal ''psp: card declined''))\<rparr>"

definition ex_env_payment_db_down :: env where
  "ex_env_payment_db_down =
     ex_env\<lparr>faults := (\<lambda>site. if site = PaymentCreate
                                then Some (ErrExternal ''pq: connection reset'') else None)\<rparr>"

definition ex_env_one_driver :: env where
  "ex_env_one_driver =
     ex_env\<lparr>FindNearbyDrivers :=
               (\<lambda>lat lng radiusKm.
                  Inr [\<lparr>l_DriverID = ''driver-1'', l_Lat = 12971 / 1000,
                        l_Lng = 77594 / 1000\<rparr>])\<rparr>"

definition ex_match_request :: MatchRequest where
  "ex_match_request =
     \<lparr>m_RideID = ''ride-1'', m_Lat = 12971 / 1000, m_Lng = 77594 / 1000,
      m_Tier = None, m_RadiusKm = 0\<rparr>"

definition ex_cancel :: CancelRideRequest where
  "ex_cancel = \<lparr>cr_RideID = ''ride-1'', cr_CancelledBy = ''rider-1'',
                cr_Reason = ''user changed mind''\<rparr>"

section \<open>Lemmas on tables\<close>

lemma find_key:
  "find (\<lambda>x. key x = k) xs = Some y \<Longrightarrow> key y = k"
  by (induction xs) (auto split: if_splits)

lemma find_snoc:
  "find P (xs @ [x]) =
     (case find P xs of None \<Rightarrow> (if P x then Some x else None) | Some y \<Rightarrow> Some y)"
  by (induction xs) simp_all

lemma find_map_preserved:
  assumes "\<And>x. P (g x) = P x"
  shows "find P (map g xs) = map_option g (find P xs)"
  using assms by (induction xs) simp_all

lemma find_map_upd_same:
  assumes "find (\<lambda>x. key x = k) xs = Some y" and "\<And>x. key x = k \<Longrightarrow> key (f x) = k"
  shows "find (\<lambda>x. key x = k) (map (\<lambda>x. if key x = k then f x else x) xs) = Some (f y)"
  using assms by (induction xs) (auto split: if_splits)

lemma find_map_upd_other:
  assumes "k' \<noteq> k" and "\<And>x. key x = k \<Longrightarrow> key (f x) = k"
  shows "find (\<lambda>x. key x = k') (map (\<lambda>x. if key x = k then f x else x) xs)
         = find (\<lambda>x. key x = k') xs"
  using assms by (induction xs) auto

section \<open>Surge pricing: the claims\<close>

lemma countLoop_filter:
  "countLoop rs lat lng radiusKm count =
     count + int (length (filter (\<lambda>ride. countsRide ride lat lng radiusKm) rs))"
  by (induction rs arbitrary: count) simp_all

lemma calculateSurgeMultiplier_default:
  "calculateSurgeMultiplier supply demand DefaultSurgeConfig =
     (if supply = 0 then (if demand > 0 then 2 else 1)
      else if of_int demand / of_int supply \<ge> (2::rat) then 2
      else if of_int demand / of_int supply \<ge> (3 / 2::rat) then 3 / 2
      else if of_int demand / of_int supply \<ge> (6 / 5::rat) then 5 / 4
      else 1)"
  by (simp add: calculateSurgeMultiplier_def DefaultSurgeConfig_def Let_def)

lemma surge_boundaries:
  assumes "supply \<noteq> 0"
  shows "of_int demand / of_int supply = (6 / 5::rat)
           \<Longrightarrow> calculateSurgeMultiplier supply demand DefaultSurgeConfig = 5 / 4"
    and "of_int demand / of_int supply = (3 / 2::rat)
           \<Longrightarrow> calculateSurgeMultiplier supply demand DefaultSurgeConfig = 3 / 2"
    and "of_int demand / of_int supply = (2::rat)
           \<Longrightarrow> calculateSurgeMultiplier supply demand DefaultSurgeConfig = 2"
proof -
  define ratio :: rat where "ratio = of_int demand / of_int supply"
  have table: "calculateSurgeMultiplier supply demand DefaultSurgeConfig =
      (if ratio \<ge> 2 then 2 else if ratio \<ge> 3 / 2 then 3 / 2
       else if ratio \<ge> 6 / 5 then 5 / 4 else 1)"
    using assms unfolding ratio_def by (simp only: calculateSurgeMultiplier_default if_False)
  show "of_int demand / of_int supply = (6 / 5::rat)
           \<Longrightarrow> calculateSurgeMultiplier supply demand DefaultSurgeConfig = 5 / 4"
    unfolding table ratio_def [symmetric] by simp
  show "of_int demand / of_int supply = (3 / 2::rat)
           \<Longrightarrow> calculateSurgeMultiplier supply demand DefaultSurgeConfig = 3 / 2"
    unfolding table ratio_def [symmetric] by simp
  show "of_int demand / of_int supply = (2::rat)
           \<Longrightarrow> calculateSurgeMultiplier supply demand DefaultSurgeConfig = 2"
    unfolding table ratio_def [symmetric] by simp
qed

lemma surge_range:
  "calculateSurgeMultiplier supply demand DefaultSurgeConfig \<in> {1, 5 / 4, 3 / 2, 2}"
  unfolding calculateSurgeMultiplier_default by simp

lemma countActiveRequestsInArea_counts:
  "countActiveRequestsInArea (Inr rs) lat lng radiusKm =
     int (length (filter
       (\<lambda>ride. r_Status ride \<noteq> CANCELLED
          \<and> (r_PickupLat ride - lat) * (r_PickupLat ride - lat)
              + (r_PickupLng ride - lng) * (r_PickupLng ride - lng) \<le> radiusKm * radiusKm) rs))"
proof -
  have scale: "(a * 111 * 111 \<le> b * 111 * 111) = (a \<le> b)" for a b :: rat
    by simp
  have "countsRide ride lat lng radiusKm =
      (r_Status ride \<noteq> CANCELLED
          \<and> (r_PickupLat ride - lat) * (r_PickupLat ride - lat)
              + (r_PickupLng ride - lng) * (r_PickupLng ride - lng) \<le> radiusKm * radiusKm)"
    for ride
    unfolding countsRide_def Let_def scale by simp
  then show ?thesis
    by (simp add: countActiveRequestsInArea_def countLoop_filter)
qed

lemma GetMultiplier_on_location_error:
  "GetMultiplier (Inl err) allRides lat lng =
     (let demand = countActiveRequestsInArea allRides lat lng 5
      in if demand \<ge> 20 then 2 else if demand \<ge> 15 then 3 / 2
         else if demand \<ge> 12 then 5 / 4 else 1)"
proof -
  define demand where "demand = countActiveRequestsInArea allRides lat lng 5"
  have "calculateSurgeMultiplier 10 demand DefaultSurgeConfig =
      (if demand \<ge> 20 then 2 else if demand \<ge> 15 then 3 / 2
       else if demand \<ge> 12 then 5 / 4 else 1)"
    unfolding calculateSurgeMultiplier_default by (simp add: field_simps)
  then show ?thesis
    by (simp add: GetMultiplier_def countDriversInArea_def DefaultSurgeConfig_def Let_def
        demand_def)
qed

text \<open>
  Claim C3. The demand count of the surge pricer is the number of rides whose status
  is REQUESTED, ASSIGNED or IN_TRIP and whose pickup lies within 5 km of the query
  point; COMPLETED and CANCELLED rides are not counted. The code skips CANCELLED rides
  only, and its distance test admits every pickup within 5 degrees. Evaluated at two
  inputs: a single COMPLETED ride at the query point is counted, and so is a REQUESTED
  ride three degrees of latitude (about 333 km) away.
\<close>

theorem C3_completed_ride_is_counted:
  "countActiveRequestsInArea (Inr [rideAt ''ride-1'' COMPLETED 0 0]) 0 0 5 = 1
   \<and> countActiveRequestsInArea (Inr [rideAt ''ride-2'' REQUESTED 3 0]) 0 0 5 = 1"
  by (simp add: countActiveRequestsInArea_def countsRide_def rideAt_def Let_def)

text \<open>
  Claim C4. Whenever the location store query fails, \<open>GetMultiplier\<close> returns exactly
  1.0 for every demand count. The code replaces the failed supply count by 10 and goes
  on to the surge table: with twelve active rides at the query point the ratio is 1.2
  and the multiplier is 1.25.
\<close>

theorem C4_surge_on_location_error:
  "GetMultiplier (Inl (ErrExternal ''redis: connection refused''))
     (Inr (replicate 12 (rideAt ''ride-1'' REQUESTED 0 0))) 0 0 = 5 / 4"
  by (simp add: GetMultiplier_def countDriversInArea_def countActiveRequestsInArea_def
      countLoop_filter countsRide_def rideAt_def DefaultSurgeConfig_def
      calculateSurgeMultiplier_def Let_def)

text \<open>
  Claim C5. For all supply and demand counts the surge multiplier is: with no supply,
  2.0 when there is demand and 1.0 otherwise; else, with \<open>ratio = demand / supply\<close>,
  2.0 when \<open>ratio \<ge> 2.0\<close>, 1.5 when \<open>ratio \<ge> 1.5\<close>, 1.25 when \<open>ratio \<ge> 1.2\<close>, and 1.0
  otherwise. The boundary ratios 1.2, 1.5 and 2.0 map to 1.25, 1.5 and 2.0, and the
  result (also that of \<open>GetMultiplier\<close>) is always one of 1.0, 1.25, 1.5, 2.0.
\<close>

theorem C5_surge_table:
  "calculateSurgeMultiplier supply demand DefaultSurgeConfig =
     (if supply = 0 then (if demand > 0 then 2 else 1)
      else if of_int demand / of_int supply \<ge> (2::rat) then 2
      else if of_int demand / of_int supply \<ge> (3 / 2::rat) then 3 / 2
      else if of_int demand / of_int supply \<ge> (6 / 5::rat) then 5 / 4
      else 1)
   \<and> (supply \<noteq> 0 \<and> of_int demand / of_int supply = (6 / 5::rat)
        \<longrightarrow> calculateSurgeMultiplier supply demand DefaultSurgeConfig = 5 / 4)
   \<and> (supply \<noteq> 0 \<and> of_int demand / of_int supply = (3 / 2::rat)
        \<longrightarrow> calculateSurgeMultiplier supply demand DefaultSurgeConfig = 3 / 2)
   \<and> (supply \<noteq> 0 \<and> of_int demand / of_int supply = (2::rat)
        \<longrightarrow> calculateSurgeMultiplier supply demand DefaultSurgeConfig = 2)
   \<and> calculateSurgeMultiplier supply demand DefaultSurgeConfig \<in> {1, 5 / 4, 3 / 2, 2}
   \<and> GetMultiplier found allRides lat lng \<in> {1, 5 / 4, 3 / 2, 2}"
proof -
  have "GetMultiplier found allRides lat lng \<in> {1, 5 / 4, 3 / 2, 2}"
    unfolding GetMultiplier_def Let_def by (rule surge_range)
  then show ?thesis
    using calculateSurgeMultiplier_default [of "supply" demand]
      surge_boundaries [of "supply" demand] surge_range [of "supply" demand]
    by blast
qed

theorem C5_surge_table_witness:
  "calculateSurgeMultiplier 5 6 DefaultSurgeConfig = 5 / 4
   \<and> calculateSurgeMultiplier 2 3 DefaultSurgeConfig = 3 / 2
   \<and> calculateSurgeMultiplier 3 6 DefaultSurgeConfig = 2
   \<and> calculateSurgeMultiplier 0 1 DefaultSurgeConfig = 2
   \<and> calculateSurgeMultiplier 0 0 DefaultSurgeConfig = 1
   \<and> calculateSurgeMultiplier 10 11 DefaultSurgeConfig = 1"
  using C5_surge_table [of 5 6] C5_surge_table [of 2 3] C5_surge_table [of 3 6]
    C5_surge_table [of 0 1] C5_surge_table [of 0 0] C5_surge_table [of 10 11]
  by simp

section \<open>PaymentService: the claims\<close>

lemma ProcessPayment_existing:
  assumes "pp_TripID req \<noteq> []" and "pp_Amount req > 0"
    and "faults e PaymentGetByIdempotencyKey = None"
    and "find (\<lambda>p. p_IdempotencyKey p = ''payment:'' @ pp_TripID req) (payments w) = Some existing"
  shows "ProcessPayment e w req newID = (Inr existing, w)"
  using assms by (simp add: ProcessPayment_def payment_GetByIdempotencyKey_def)

lemma ProcessPayment_frame:
  assumes "ProcessPayment e w req newID = (res, w')"
  shows "trips w' = trips w \<and> rides w' = rides w \<and> drivers w' = drivers w
         \<and> locks w' = locks w \<and> driverCache w' = driverCache w
         \<and> rideCacheKeys w' = rideCacheKeys w \<and> availableDrivers w' = availableDrivers w"
  using assms
  by (auto simp: ProcessPayment_def payment_GetByIdempotencyKey_def payment_Create_def
      payment_UpdateStatus_def pspCharge_def Let_def
      split: if_splits option.splits sum.splits prod.splits bool.splits)

lemma ProcessPayment_psp_failure:
  assumes run: "ProcessPayment e w req newID = (res, w')"
    and called: "charged w' \<noteq> charged w"
    and psp: "Charge e (pp_Amount req) \<noteq> Inr True"
    and upd: "faults e PaymentUpdateStatus = None"
  shows "\<exists>p. res = Inr p \<and> p_Status p = FAILED \<and> p_ID p = newID
           \<and> p_TripID p = pp_TripID req \<and> p_Amount p = pp_Amount req
           \<and> find (\<lambda>q. p_ID q = newID) (payments w') = Some p
           \<and> charged w' = charged w @ [pp_Amount req]"
  using assms
  by (auto simp: ProcessPayment_def payment_GetByIdempotencyKey_def payment_Create_def
      payment_UpdateStatus_def pspCharge_def Let_def find_snoc find_map_preserved
      split: if_splits option.splits sum.splits prod.splits bool.splits)

lemma ProcessPayment_psp_error_absorbed:
  assumes run: "ProcessPayment e w req newID = (res, w')"
    and called: "charged w' \<noteq> charged w"
    and psp: "Charge e (pp_Amount req) = Inl pspErr"
  shows "\<exists>p. res = Inr p \<and> p_Status p = FAILED"
  using assms
  by (auto simp: ProcessPayment_def payment_GetByIdempotencyKey_def payment_Create_def
      pspCharge_def Let_def
      split: if_splits option.splits sum.splits prod.splits)

lemma ProcessPayment_repeat:
  assumes first: "ProcessPayment e w req id1 = (Inr p1, w1)"
    and second: "faults e2 PaymentGetByIdempotencyKey = None"
  shows "\<exists>p2. ProcessPayment e2 w1 req id2 = (Inr p2, w1) \<and> p_ID p2 = p_ID p1
           \<and> (if faults e PaymentUpdateStatus = None then p2 = p1 else p_ID p2 = p_ID p1)"
proof -
  have valid: "pp_TripID req \<noteq> []" "pp_Amount req > 0"
    using first by (auto simp: ProcessPayment_def split: if_splits)
  have "\<exists>p2. find (\<lambda>p. p_IdempotencyKey p = ''payment:'' @ pp_TripID req) (payments w1) = Some p2
          \<and> p_ID p2 = p_ID p1
          \<and> (if faults e PaymentUpdateStatus = None then p2 = p1 else p_ID p2 = p_ID p1)"
    using first
    by (auto simp: ProcessPayment_def payment_GetByIdempotencyKey_def payment_Create_def
        payment_UpdateStatus_def pspCharge_def Let_def find_snoc find_map_preserved
        split: if_splits option.splits sum.splits prod.splits bool.splits)
  then obtain p2 where
    p2: "find (\<lambda>p. p_IdempotencyKey p = ''payment:'' @ pp_TripID req) (payments w1) = Some p2"
    and same: "p_ID p2 = p_ID p1"
      "(if faults e PaymentUpdateStatus = None then p2 = p1 else p_ID p2 = p_ID p1)"
    by blast
  have "ProcessPayment e2 w1 req id2 = (Inr p2, w1)"
    using valid second p2 by (rule ProcessPayment_existing)
  with same show ?thesis by blast
qed

text \<open>
  Claim C2. \<open>ProcessPayment\<close> is idempotent per trip: when a payment with the
  idempotency key \<open>"payment:" + trip_id\<close> already exists, a call (one that passes the
  input validation, as the call that created the payment did, and whose lookup
  succeeds) returns that existing record, with its id and status, creates no payment
  and does not call \<open>PSP.Charge\<close>: the world, with its payment table and its list of
  charges, is unchanged. In particular a second call after a first one that returned a
  payment returns a record with the same id (the same record, when the first call's
  status write succeeded) and leaves the world as the first call left it.
\<close>

theorem C2_payment_idempotent:
  "(pp_TripID req \<noteq> [] \<and> pp_Amount req > 0
      \<and> faults e PaymentGetByIdempotencyKey = None
      \<and> find (\<lambda>p. p_IdempotencyKey p = ''payment:'' @ pp_TripID req) (payments w) = Some existing
    \<longrightarrow> ProcessPayment e w req newID = (Inr existing, w)
        \<and> payments (snd (ProcessPayment e w req newID)) = payments w
        \<and> charged (snd (ProcessPayment e w req newID)) = charged w)
   \<and> (ProcessPayment e w req newID = (Inr p1, w1)
      \<and> faults e2 PaymentGetByIdempotencyKey = None
    \<longrightarrow> (\<exists>p2. ProcessPayment e2 w1 req newID2 = (Inr p2, w1) \<and> p_ID p2 = p_ID p1
            \<and> (faults e PaymentUpdateStatus = None \<longrightarrow> p2 = p1)))"
  using ProcessPayment_existing [of req e w existing newID]
    ProcessPayment_repeat [of e w req newID p1 w1 e2 newID2]
  by auto

theorem C2_payment_idempotent_witness:
  "ProcessPayment ex_env (ex_world [] [] [ex_trip ENDED] [ex_payment SUCCESS])
       \<lparr>pp_TripID = ''trip-1'', pp_Amount = 21 / 2\<rparr> ''pay-2''
     = (Inr (ex_payment SUCCESS), ex_world [] [] [ex_trip ENDED] [ex_payment SUCCESS])
   \<and> (\<exists>p1 w1 p2.
         ProcessPayment ex_env (ex_world [] [] [ex_trip ENDED] [])
           \<lparr>pp_TripID = ''trip-1'', pp_Amount = 21 / 2\<rparr> ''pay-1'' = (Inr p1, w1)
       \<and> ProcessPayment ex_env w1
           \<lparr>pp_TripID = ''trip-1'', pp_Amount = 21 / 2\<rparr> ''pay-2'' = (Inr p2, w1)
       \<and> p_ID p1 = ''pay-1'' \<and> p_ID p2 = ''pay-1'' \<and> charged w1 = [21 / 2])"
proof -
  let ?req = "\<lparr>pp_TripID = ''trip-1'', pp_Amount = 21 / 2\<rparr>"
  have a: "ProcessPayment ex_env (ex_world [] [] [ex_trip ENDED] [ex_payment SUCCESS]) ?req ''pay-2''
      = (Inr (ex_payment SUCCESS), ex_world [] [] [ex_trip ENDED] [ex_payment SUCCESS])"
    using C2_payment_idempotent [THEN conjunct1, of ?req ex_env
        "ex_world [] [] [ex_trip ENDED] [ex_payment SUCCESS]" "ex_payment SUCCESS" "''pay-2''"]
    by (simp add: ex_env_def ex_world_def ex_payment_def)
  obtain p1 w1 where first:
    "ProcessPayment ex_env (ex_world [] [] [ex_trip ENDED] []) ?req ''pay-1'' = (Inr p1, w1)"
    and obs: "p_ID p1 = ''pay-1''" "charged w1 = [21 / 2]"
    by (simp add: ProcessPayment_def payment_GetByIdempotencyKey_def payment_Create_def
        payment_UpdateStatus_def pspCharge_def ex_env_def ex_world_def Let_def)
  from C2_payment_idempotent [THEN conjunct2, rule_format, of ex_env _ ?req "''pay-1''" p1 w1
      ex_env "''pay-2''"] first
  obtain p2 where "ProcessPayment ex_env w1 ?req ''pay-2'' = (Inr p2, w1)" "p_ID p2 = p_ID p1"
    by (auto simp: ex_env_def)
  with first obs a show ?thesis by auto
qed

section \<open>TripService: the claims\<close>

lemma truncSeconds_0 [simp]: "truncSeconds 0 = 0"
  by (simp add: truncSeconds_def)

lemma surgedFare_is_spec_fare:
  "surgedFare trip ride endTime
     = spec_fare ((endTime - t_StartedAt trip) - t_TotalPaused trip) (r_SurgeMultiplier ride)"
  by (simp add: surgedFare_def calculateFare_def spec_fare_def Let_def max_def)

lemma addRemainingPause_fields [simp]:
  "t_ID (addRemainingPause trip s) = t_ID trip"
  "t_RideID (addRemainingPause trip s) = t_RideID trip"
  "t_DriverID (addRemainingPause trip s) = t_DriverID trip"
  "t_StartedAt (addRemainingPause trip s) = t_StartedAt trip"
  "t_Status (addRemainingPause trip s) = t_Status trip"
  by (simp_all add: addRemainingPause_def)

lemma endTripTx_effect:
  assumes "endTripTx e w trip ride = Inr w1"
  shows "trips w1 = map (\<lambda>t. if t_ID t = t_ID trip then storedTrip trip else t) (trips w)
       \<and> find (\<lambda>t. t_ID t = t_ID trip) (trips w) \<noteq> None
       \<and> rides w1 = map (\<lambda>r. if r_ID r = r_ID ride then storedRide r ride else r) (rides w)
       \<and> find (\<lambda>r. r_ID r = r_ID ride) (rides w) \<noteq> None
       \<and> drivers w1 = map (\<lambda>d. if d_ID d = t_DriverID trip then d\<lparr>d_Status := ONLINE\<rparr> else d) (drivers w)
       \<and> find (\<lambda>d. d_ID d = t_DriverID trip) (drivers w) \<noteq> None
       \<and> payments w1 = payments w \<and> charged w1 = charged w"
  using assms
  by (auto simp: endTripTx_def trip_Update_def ride_Update_def driver_UpdateStatus_def
      split: option.splits sum.splits if_splits)

lemma endTripTx_succeeds:
  assumes "faults e TripUpdate = None" "faults e RideUpdate = None"
    "faults e DriverUpdateStatus = None" "faults e Commit = None"
    "find (\<lambda>t. t_ID t = t_ID trip) (trips w) \<noteq> None" "t_Status trip = ENDED"
    "find (\<lambda>r. r_ID r = r_ID ride) (rides w) \<noteq> None"
    "find (\<lambda>d. d_ID d = t_DriverID trip) (drivers w) \<noteq> None"
  shows "\<exists>w1. endTripTx e w trip ride = Inr w1"
  using assms
  by (simp add: endTripTx_def trip_Update_def ride_Update_def driver_UpdateStatus_def
      activeClash_def)

lemma EndTrip_success_shape:
  assumes run: "EndTrip e w tripID inp = (Inr resp, w')"
  obtains trip0 ride0 w1 paid where
      "tripID \<noteq> []"
      "find (\<lambda>t. t_ID t = tripID) (trips w) = Some trip0"
      "t_Status trip0 \<noteq> ENDED"
      "find (\<lambda>r. r_ID r = t_RideID trip0) (rides w) = Some ride0"
      "resp_Trip resp =
         (addRemainingPause trip0 (in_SinceNow inp))
           \<lparr>t_Status := ENDED,
            t_Fare := surgedFare (addRemainingPause trip0 (in_SinceNow inp)) ride0 (in_EndTime inp),
            t_EndedAt := in_EndTime inp\<rparr>"
      "endTripTx e w (resp_Trip resp) (ride0\<lparr>r_Status := COMPLETED\<rparr>) = Inr w1"
      "ProcessPayment e w1 \<lparr>pp_TripID = tripID, pp_Amount = t_Fare (resp_Trip resp)\<rparr>
         (in_PaymentID inp) = (paid, w')"
      "resp_Payment resp = (case paid of Inl err \<Rightarrow> None | Inr p \<Rightarrow> Some p)"
proof -
  have ne: "tripID \<noteq> []"
    using run by (auto simp: EndTrip_def)
  obtain trip0 where get: "trip_GetByID e w tripID = Inr trip0"
    using run ne by (cases "trip_GetByID e w tripID") (auto simp: EndTrip_def)
  have found: "find (\<lambda>t. t_ID t = tripID) (trips w) = Some trip0"
    using get by (auto simp: trip_GetByID_def split: option.splits)
  have tid: "t_ID trip0 = tripID"
    using found by (rule find_key)
  have live: "t_Status trip0 \<noteq> ENDED"
    using run ne get by (auto simp: EndTrip_def)
  define trip1 where "trip1 = addRemainingPause trip0 (in_SinceNow inp)"
  have rid1: "t_RideID trip1 = t_RideID trip0" and tid1: "t_ID trip1 = tripID"
    using tid by (simp_all add: trip1_def addRemainingPause_def)
  obtain ride0 where getr: "ride_GetByID e w (t_RideID trip1) = Inr ride0"
    using run ne get live
    by (cases "ride_GetByID e w (t_RideID trip1)") (auto simp: EndTrip_def Let_def trip1_def)
  have foundr: "find (\<lambda>r. r_ID r = t_RideID trip0) (rides w) = Some ride0"
    using getr rid1 by (auto simp: ride_GetByID_def split: option.splits)
  have btx: "faults e BeginTx = None"
    using run ne get live getr
    by (cases "faults e BeginTx") (auto simp: EndTrip_def Let_def trip1_def)
  define trip where "trip = trip1\<lparr>t_Status := ENDED,
      t_Fare := surgedFare trip1 ride0 (in_EndTime inp), t_EndedAt := in_EndTime inp\<rparr>"
  obtain w1 where tx: "endTripTx e w trip (ride0\<lparr>r_Status := COMPLETED\<rparr>) = Inr w1"
    using run ne get live getr btx
    by (cases "endTripTx e w trip (ride0\<lparr>r_Status := COMPLETED\<rparr>)")
      (auto simp: EndTrip_def Let_def trip1_def trip_def)
  obtain paid w2 where pay: "ProcessPayment e w1
      \<lparr>pp_TripID = t_ID trip, pp_Amount = surgedFare trip1 ride0 (in_EndTime inp)\<rparr>
      (in_PaymentID inp) = (paid, w2)"
    by (cases "ProcessPayment e w1
      \<lparr>pp_TripID = t_ID trip, pp_Amount = surgedFare trip1 ride0 (in_EndTime inp)\<rparr>
      (in_PaymentID inp)")
  have res: "resp_Trip resp = trip \<and> w' = w2
      \<and> resp_Payment resp = (case paid of Inl err \<Rightarrow> None | Inr p \<Rightarrow> Some p)"
    using run ne get live getr btx tx pay
    by (auto simp: EndTrip_def Let_def trip1_def [symmetric] trip_def [symmetric])
  show ?thesis
  proof (rule that [of trip0 ride0 w1 paid])
    show "tripID \<noteq> []" by (rule ne)
    show "find (\<lambda>t. t_ID t = tripID) (trips w) = Some trip0" by (rule found)
    show "t_Status trip0 \<noteq> ENDED" by (rule live)
    show "find (\<lambda>r. r_ID r = t_RideID trip0) (rides w) = Some ride0" by (rule foundr)
    show "resp_Trip resp =
         (addRemainingPause trip0 (in_SinceNow inp))
           \<lparr>t_Status := ENDED,
            t_Fare := surgedFare (addRemainingPause trip0 (in_SinceNow inp)) ride0 (in_EndTime inp),
            t_EndedAt := in_EndTime inp\<rparr>"
      using res by (simp add: trip_def trip1_def)
    show "endTripTx e w (resp_Trip resp) (ride0\<lparr>r_Status := COMPLETED\<rparr>) = Inr w1"
      using res tx by simp
    show "ProcessPayment e w1 \<lparr>pp_TripID = tripID, pp_Amount = t_Fare (resp_Trip resp)\<rparr>
         (in_PaymentID inp) = (paid, w')"
      using res pay tid1 by (simp add: trip_def)
    show "resp_Payment resp = (case paid of Inl err \<Rightarrow> None | Inr p \<Rightarrow> Some p)"
      using res by simp
  qed
qed

lemma EndTrip_succeeds:
  assumes "tripID \<noteq> []"
    and "faults e TripGetByID = None" "faults e RideGetByID = None" "faults e BeginTx = None"
    and "faults e TripUpdate = None" "faults e RideUpdate = None"
    and "faults e DriverUpdateStatus = None" "faults e Commit = None"
    and trip: "find (\<lambda>t. t_ID t = tripID) (trips w) = Some trip0"
    and "t_Status trip0 \<noteq> ENDED"
    and ride: "find (\<lambda>r. r_ID r = t_RideID trip0) (rides w) = Some ride0"
    and "find (\<lambda>d. d_ID d = t_DriverID trip0) (drivers w) \<noteq> None"
  shows "\<exists>resp w'. EndTrip e w tripID inp = (Inr resp, w')"
proof -
  define trip where "trip = (addRemainingPause trip0 (in_SinceNow inp))
      \<lparr>t_Status := ENDED,
       t_Fare := surgedFare (addRemainingPause trip0 (in_SinceNow inp)) ride0 (in_EndTime inp),
       t_EndedAt := in_EndTime inp\<rparr>"
  have tid: "t_ID trip0 = tripID" using trip by (rule find_key)
  have rid: "r_ID ride0 = t_RideID trip0" using ride by (rule find_key)
  have "\<exists>w1. endTripTx e w trip (ride0\<lparr>r_Status := COMPLETED\<rparr>) = Inr w1"
    using assms tid rid by (intro endTripTx_succeeds) (simp_all add: trip_def)
  then obtain w1 where tx: "endTripTx e w trip (ride0\<lparr>r_Status := COMPLETED\<rparr>) = Inr w1" ..
  show ?thesis
    using assms tx
    by (simp add: EndTrip_def trip_GetByID_def ride_GetByID_def Let_def trip_def
        split: prod.splits)
qed

lemma EndTrip_effect:
  assumes run: "EndTrip e w tripID inp = (Inr resp, w')"
  shows "find (\<lambda>t. t_ID t = tripID) (trips w') = Some (storedTrip (resp_Trip resp))"
    and "\<exists>ride0. find (\<lambda>r. r_ID r = t_RideID (resp_Trip resp)) (rides w) = Some ride0
           \<and> find (\<lambda>r. r_ID r = t_RideID (resp_Trip resp)) (rides w')
               = Some (storedRide ride0 (ride0\<lparr>r_Status := COMPLETED\<rparr>))"
    and "\<exists>d. find (\<lambda>d. d_ID d = t_DriverID (resp_Trip resp)) (drivers w) = Some d
           \<and> find (\<lambda>d. d_ID d = t_DriverID (resp_Trip resp)) (drivers w')
               = Some (d\<lparr>d_Status := ONLINE\<rparr>)"
proof -
  from run obtain trip0 ride0 w1 paid where
    ne: "tripID \<noteq> []"
    and found: "find (\<lambda>t. t_ID t = tripID) (trips w) = Some trip0"
    and foundr: "find (\<lambda>r. r_ID r = t_RideID trip0) (rides w) = Some ride0"
    and shape: "resp_Trip resp =
         (addRemainingPause trip0 (in_SinceNow inp))
           \<lparr>t_Status := ENDED,
            t_Fare := surgedFare (addRemainingPause trip0 (in_SinceNow inp)) ride0 (in_EndTime inp),
            t_EndedAt := in_EndTime inp\<rparr>"
    and tx: "endTripTx e w (resp_Trip resp) (ride0\<lparr>r_Status := COMPLETED\<rparr>) = Inr w1"
    and pay: "ProcessPayment e w1 \<lparr>pp_TripID = tripID, pp_Amount = t_Fare (resp_Trip resp)\<rparr>
         (in_PaymentID inp) = (paid, w')"
    by (rule EndTrip_success_shape)
  have tid: "t_ID trip0 = tripID" using found by (rule find_key)
  have rid: "r_ID ride0 = t_RideID trip0" using foundr by (rule find_key)
  have tid': "t_ID (resp_Trip resp) = tripID" and rid': "t_RideID (resp_Trip resp) = t_RideID trip0"
    and did': "t_DriverID (resp_Trip resp) = t_DriverID trip0"
    using tid by (simp_all add: shape)
  note eff = endTripTx_effect [OF tx]
  note frame = ProcessPayment_frame [OF pay]
  have "find (\<lambda>t. t_ID t = tripID) (trips w1) = Some (storedTrip (resp_Trip resp))"
    using eff found tid tid'
      find_map_upd_same [where key = t_ID and f = "\<lambda>t. storedTrip (resp_Trip resp)", OF found]
    by (simp add: storedTrip_def)
  then show "find (\<lambda>t. t_ID t = tripID) (trips w') = Some (storedTrip (resp_Trip resp))"
    using frame by simp
  have "find (\<lambda>r. r_ID r = t_RideID trip0) (rides w1)
      = Some (storedRide ride0 (ride0\<lparr>r_Status := COMPLETED\<rparr>))"
    using eff foundr rid
      find_map_upd_same [where key = r_ID
        and f = "\<lambda>r. storedRide r (ride0\<lparr>r_Status := COMPLETED\<rparr>)", OF foundr]
    by (simp add: storedRide_def)
  then show "\<exists>ride0. find (\<lambda>r. r_ID r = t_RideID (resp_Trip resp)) (rides w) = Some ride0
           \<and> find (\<lambda>r. r_ID r = t_RideID (resp_Trip resp)) (rides w')
               = Some (storedRide ride0 (ride0\<lparr>r_Status := COMPLETED\<rparr>))"
    using frame foundr rid' by simp
  from eff obtain d where d: "find (\<lambda>d. d_ID d = t_DriverID trip0) (drivers w) = Some d"
    using did' by auto
  have "find (\<lambda>d. d_ID d = t_DriverID trip0) (drivers w1) = Some (d\<lparr>d_Status := ONLINE\<rparr>)"
    using eff d did'
      find_map_upd_same [where key = d_ID and f = "\<lambda>d. d\<lparr>d_Status := ONLINE\<rparr>", OF d]
    by simp
  then show "\<exists>d. find (\<lambda>d. d_ID d = t_DriverID (resp_Trip resp)) (drivers w) = Some d
           \<and> find (\<lambda>d. d_ID d = t_DriverID (resp_Trip resp)) (drivers w')
               = Some (d\<lparr>d_Status := ONLINE\<rparr>)"
    using frame d did' by simp
qed

lemma EndTrip_payment_fault:
  assumes run: "EndTrip e w tripID inp = (Inr resp, w')"
    and fault: "faults e PaymentGetByIdempotencyKey \<noteq> None
                \<or> faults e PaymentCreate \<noteq> None"
    and fresh: "find (\<lambda>p. p_IdempotencyKey p = ''payment:'' @ tripID) (payments w) = None"
  shows "resp_Payment resp = None"
proof -
  from run obtain ride0 w1 paid where
    tx: "endTripTx e w (resp_Trip resp) (ride0\<lparr>r_Status := COMPLETED\<rparr>) = Inr w1"
    and pay: "ProcessPayment e w1 \<lparr>pp_TripID = tripID, pp_Amount = t_Fare (resp_Trip resp)\<rparr>
         (in_PaymentID inp) = (paid, w')"
    and rp: "resp_Payment resp = (case paid of Inl err \<Rightarrow> None | Inr p \<Rightarrow> Some p)"
    by (rule EndTrip_success_shape)
  have same: "payments w1 = payments w"
    using endTripTx_effect [OF tx] by simp
  have "\<exists>err. paid = Inl err"
    using pay fault fresh same
    by (auto simp: ProcessPayment_def payment_GetByIdempotencyKey_def payment_Create_def Let_def
        split: if_splits option.splits sum.splits)
  then show ?thesis using rp by auto
qed

text \<open>
  Claim C1. For every trip ended by \<open>EndTrip\<close>, the fare of the trip equals
  \<open>base_fare + per_minute_rate * effective_minutes\<close>, raised to \<open>minimum_fare\<close> when
  smaller, multiplied by \<open>max(1.0, ride.surge_multiplier)\<close>, where the effective time
  is \<open>(ended_at - started_at) - total_paused\<close> and the parameters are 2.0, 0.5 and 5.0;
  a trip of zero effective time costs \<open>minimum_fare * max(1.0, surge)\<close>. The trip meant
  is the one \<open>EndTrip\<close> returns and writes: \<open>ended_at\<close> is the end time of the call,
  \<open>started_at\<close> that of the stored trip, \<open>total_paused\<close> the stored value plus the pause
  still running, and the row written to the trip table is ENDED and carries the same
  fare, start and end.
\<close>

theorem C1_fare_formula:
  assumes "EndTrip e w tripID inp = (Inr resp, w')"
  shows "\<exists>trip0 ride row.
           find (\<lambda>t. t_ID t = tripID) (trips w) = Some trip0
         \<and> find (\<lambda>r. r_ID r = t_RideID trip0) (rides w) = Some ride
         \<and> t_StartedAt (resp_Trip resp) = t_StartedAt trip0
         \<and> t_EndedAt (resp_Trip resp) = in_EndTime inp
         \<and> t_TotalPaused (resp_Trip resp)
               = t_TotalPaused (addRemainingPause trip0 (in_SinceNow inp))
         \<and> t_Fare (resp_Trip resp)
               = spec_fare ((t_EndedAt (resp_Trip resp) - t_StartedAt (resp_Trip resp))
                             - t_TotalPaused (resp_Trip resp)) (r_SurgeMultiplier ride)
         \<and> ((t_EndedAt (resp_Trip resp) - t_StartedAt (resp_Trip resp))
                - t_TotalPaused (resp_Trip resp) = 0
              \<longrightarrow> t_Fare (resp_Trip resp) = 5 * max 1 (r_SurgeMultiplier ride))
         \<and> find (\<lambda>t. t_ID t = tripID) (trips w') = Some row
         \<and> t_Status row = ENDED
         \<and> t_Fare row = t_Fare (resp_Trip resp)
         \<and> t_StartedAt row = t_StartedAt (resp_Trip resp)
         \<and> t_EndedAt row = t_EndedAt (resp_Trip resp)"
proof -
  from assms obtain trip0 ride0 where
    found: "find (\<lambda>t. t_ID t = tripID) (trips w) = Some trip0"
    and foundr: "find (\<lambda>r. r_ID r = t_RideID trip0) (rides w) = Some ride0"
    and shape: "resp_Trip resp =
         (addRemainingPause trip0 (in_SinceNow inp))
           \<lparr>t_Status := ENDED,
            t_Fare := surgedFare (addRemainingPause trip0 (in_SinceNow inp)) ride0 (in_EndTime inp),
            t_EndedAt := in_EndTime inp\<rparr>"
    by (rule EndTrip_success_shape)
  have row: "find (\<lambda>t. t_ID t = tripID) (trips w') = Some (storedTrip (resp_Trip resp))"
    using assms by (rule EndTrip_effect)
  have fare: "t_Fare (resp_Trip resp)
      = spec_fare ((t_EndedAt (resp_Trip resp) - t_StartedAt (resp_Trip resp))
                    - t_TotalPaused (resp_Trip resp)) (r_SurgeMultiplier ride0)"
    by (simp add: shape surgedFare_is_spec_fare)
  have zero: "(t_EndedAt (resp_Trip resp) - t_StartedAt (resp_Trip resp))
                - t_TotalPaused (resp_Trip resp) = 0
              \<longrightarrow> t_Fare (resp_Trip resp) = 5 * max 1 (r_SurgeMultiplier ride0)"
    unfolding fare by (simp add: spec_fare_def)
  show ?thesis
    using found foundr fare zero row
    by (intro exI [of _ trip0] exI [of _ ride0] exI [of _ "storedTrip (resp_Trip resp)"])
      (simp add: shape storedTrip_def)
qed

theorem C1_fare_formula_witness:
  "(\<exists>resp w'.
      EndTrip ex_env
        (ex_world [ex_ride IN_TRIP ''driver-1''] [ex_driver ON_TRIP] [ex_trip STARTED] [])
        ''trip-1'' (ex_inputs 601000000000) = (Inr resp, w')
    \<and> t_Fare (resp_Trip resp) = 21 / 2)
   \<and> (\<exists>resp w'.
      EndTrip ex_env
        (ex_world [ex_ride IN_TRIP ''driver-1''] [ex_driver ON_TRIP] [ex_trip STARTED] [])
        ''trip-1'' (ex_inputs 1000000000) = (Inr resp, w')
    \<and> t_Fare (resp_Trip resp) = 15 / 2)"
proof -
  let ?w = "ex_world [ex_ride IN_TRIP ''driver-1''] [ex_driver ON_TRIP] [ex_trip STARTED] []"
  have runs: "\<exists>resp w'. EndTrip ex_env ?w ''trip-1'' (ex_inputs endTime) = (Inr resp, w')"
    for endTime
    by (rule EndTrip_succeeds [where ?trip0.0 = "ex_trip STARTED"
          and ?ride0.0 = "ex_ride IN_TRIP ''driver-1''"])
      (simp_all add: ex_env_def ex_world_def ex_trip_def ex_ride_def ex_driver_def)
  from runs obtain resp w' where
    run: "EndTrip ex_env ?w ''trip-1'' (ex_inputs 601000000000) = (Inr resp, w')"
    by blast
  from C1_fare_formula [OF run]
  have ten_minutes: "t_Fare (resp_Trip resp) = 21 / 2"
    by (auto simp: ex_world_def ex_trip_def ex_ride_def ex_inputs_def spec_fare_def
        addRemainingPause_def Let_def)
  from runs obtain resp0 w0 where
    run0: "EndTrip ex_env ?w ''trip-1'' (ex_inputs 1000000000) = (Inr resp0, w0)"
    by blast
  from C1_fare_formula [OF run0]
  have zero_seconds: "t_Fare (resp_Trip resp0) = 15 / 2"
    by (auto simp: ex_world_def ex_trip_def ex_ride_def ex_inputs_def spec_fare_def
        addRemainingPause_def Let_def)
  from run ten_minutes run0 zero_seconds show ?thesis by blast
qed

text \<open>
  Claim C8. For every new payment attempt, when \<open>PSP.Charge\<close> returns an error or
  false, \<open>ProcessPayment\<close> records and returns a payment with status FAILED and does
  not propagate the error of the provider (first part: the status write succeeds, the
  returned payment is FAILED and is the row stored under its id; second part: a
  provider error is turned into a returned FAILED payment whatever the repository
  does). And \<open>EndTrip\<close> returns success, with the trip ENDED, the ride COMPLETED and the
  driver ONLINE, whatever the payment step does (third part: nothing is assumed of the
  payment repository or of the provider); when the payment step fails because the
  payment repository fails, the response carries no payment.
\<close>

theorem C8_psp_failure_absorbed:
  "(ProcessPayment e w req newID = (res, w') \<and> charged w' \<noteq> charged w
      \<and> Charge e (pp_Amount req) \<noteq> Inr True \<and> faults e PaymentUpdateStatus = None
    \<longrightarrow> (\<exists>p. res = Inr p \<and> p_Status p = FAILED
              \<and> find (\<lambda>q. p_ID q = p_ID p) (payments w') = Some p))
   \<and> (ProcessPayment e w req newID = (res, w') \<and> charged w' \<noteq> charged w
      \<and> Charge e (pp_Amount req) = Inl pspErr
    \<longrightarrow> (\<exists>p. res = Inr p \<and> p_Status p = FAILED))
   \<and> (tripID \<noteq> []
      \<and> faults e2 TripGetByID = None \<and> faults e2 RideGetByID = None
      \<and> faults e2 BeginTx = None \<and> faults e2 TripUpdate = None
      \<and> faults e2 RideUpdate = None \<and> faults e2 DriverUpdateStatus = None
      \<and> faults e2 Commit = None
      \<and> find (\<lambda>t. t_ID t = tripID) (trips v) = Some trip0 \<and> t_Status trip0 \<noteq> ENDED
      \<and> find (\<lambda>r. r_ID r = t_RideID trip0) (rides v) = Some ride0
      \<and> find (\<lambda>d. d_ID d = t_DriverID trip0) (drivers v) = Some driver0
    \<longrightarrow> (\<exists>resp v' row ride1 driver1.
            EndTrip e2 v tripID inp = (Inr resp, v')
          \<and> t_Status (resp_Trip resp) = ENDED
          \<and> find (\<lambda>t. t_ID t = tripID) (trips v') = Some row \<and> t_Status row = ENDED
          \<and> find (\<lambda>r. r_ID r = t_RideID trip0) (rides v') = Some ride1
          \<and> r_Status ride1 = COMPLETED
          \<and> find (\<lambda>d. d_ID d = t_DriverID trip0) (drivers v') = Some driver1
          \<and> d_Status driver1 = ONLINE
          \<and> ((faults e2 PaymentGetByIdempotencyKey \<noteq> None \<or> faults e2 PaymentCreate \<noteq> None)
                \<and> find (\<lambda>p. p_IdempotencyKey p = ''payment:'' @ tripID) (payments v) = None
              \<longrightarrow> resp_Payment resp = None)))"
proof (intro conjI impI)
  assume "ProcessPayment e w req newID = (res, w') \<and> charged w' \<noteq> charged w
      \<and> Charge e (pp_Amount req) \<noteq> Inr True \<and> faults e PaymentUpdateStatus = None"
  then show "\<exists>p. res = Inr p \<and> p_Status p = FAILED
              \<and> find (\<lambda>q. p_ID q = p_ID p) (payments w') = Some p"
    using ProcessPayment_psp_failure [of e w req newID res w'] by blast
next
  assume "ProcessPayment e w req newID = (res, w') \<and> charged w' \<noteq> charged w
      \<and> Charge e (pp_Amount req) = Inl pspErr"
  then show "\<exists>p. res = Inr p \<and> p_Status p = FAILED"
    using ProcessPayment_psp_error_absorbed [of e w req newID res w' pspErr] by blast
next
  assume hyp: "tripID \<noteq> []
      \<and> faults e2 TripGetByID = None \<and> faults e2 RideGetByID = None
      \<and> faults e2 BeginTx = None \<and> faults e2 TripUpdate = None
      \<and> faults e2 RideUpdate = None \<and> faults e2 DriverUpdateStatus = None
      \<and> faults e2 Commit = None
      \<and> find (\<lambda>t. t_ID t = tripID) (trips v) = Some trip0 \<and> t_Status trip0 \<noteq> ENDED
      \<and> find (\<lambda>r. r_ID r = t_RideID trip0) (rides v) = Some ride0
      \<and> find (\<lambda>d. d_ID d = t_DriverID trip0) (drivers v) = Some driver0"
  then have "\<exists>resp v'. EndTrip e2 v tripID inp = (Inr resp, v')"
    by (intro EndTrip_succeeds [where ?trip0.0 = trip0 and ?ride0.0 = ride0]) simp_all
  then obtain resp v' where run: "EndTrip e2 v tripID inp = (Inr resp, v')"
    by blast
  from run obtain trip0' where
    found': "find (\<lambda>t. t_ID t = tripID) (trips v) = Some trip0'"
    and shape: "\<exists>ride0'. resp_Trip resp =
         (addRemainingPause trip0' (in_SinceNow inp))
           \<lparr>t_Status := ENDED,
            t_Fare := surgedFare (addRemainingPause trip0' (in_SinceNow inp)) ride0' (in_EndTime inp),
            t_EndedAt := in_EndTime inp\<rparr>"
    by (rule EndTrip_success_shape) blast
  have same: "trip0' = trip0" using found' hyp by simp
  have ids: "t_RideID (resp_Trip resp) = t_RideID trip0"
    "t_DriverID (resp_Trip resp) = t_DriverID trip0" "t_Status (resp_Trip resp) = ENDED"
    using shape same by auto
  note eff = EndTrip_effect [OF run]
  have pay: "(faults e2 PaymentGetByIdempotencyKey \<noteq> None \<or> faults e2 PaymentCreate \<noteq> None)
                \<and> find (\<lambda>p. p_IdempotencyKey p = ''payment:'' @ tripID) (payments v) = None
              \<longrightarrow> resp_Payment resp = None"
    using EndTrip_payment_fault [OF run] by blast
  show "\<exists>resp v' row ride1 driver1.
            EndTrip e2 v tripID inp = (Inr resp, v')
          \<and> t_Status (resp_Trip resp) = ENDED
          \<and> find (\<lambda>t. t_ID t = tripID) (trips v') = Some row \<and> t_Status row = ENDED
          \<and> find (\<lambda>r. r_ID r = t_RideID trip0) (rides v') = Some ride1
          \<and> r_Status ride1 = COMPLETED
          \<and> find (\<lambda>d. d_ID d = t_DriverID trip0) (drivers v') = Some driver1
          \<and> d_Status driver1 = ONLINE
          \<and> ((faults e2 PaymentGetByIdempotencyKey \<noteq> None \<or> faults e2 PaymentCreate \<noteq> None)
                \<and> find (\<lambda>p. p_IdempotencyKey p = ''payment:'' @ tripID) (payments v) = None
              \<longrightarrow> resp_Payment resp = None)"
    using run eff ids pay
    by (auto simp: storedTrip_def storedRide_def)
qed

theorem C8_psp_failure_absorbed_witness:
  "(\<exists>p w'. ProcessPayment ex_env_psp_down (ex_world [] [] [ex_trip ENDED] [])
              \<lparr>pp_TripID = ''trip-1'', pp_Amount = 21 / 2\<rparr> ''pay-1'' = (Inr p, w')
          \<and> p_Status p = FAILED
          \<and> find (\<lambda>q. p_ID q = p_ID p) (payments w') = Some p)
   \<and> (\<exists>resp v' row ride1 driver1.
          EndTrip ex_env_payment_db_down
            (ex_world [ex_ride IN_TRIP ''driver-1''] [ex_driver ON_TRIP] [ex_trip STARTED] [])
            ''trip-1'' (ex_inputs 601000000000) = (Inr resp, v')
        \<and> resp_Payment resp = None
        \<and> find (\<lambda>t. t_ID t = ''trip-1'') (trips v') = Some row \<and> t_Status row = ENDED
        \<and> find (\<lambda>r. r_ID r = ''ride-1'') (rides v') = Some ride1 \<and> r_Status ride1 = COMPLETED
        \<and> find (\<lambda>d. d_ID d = ''driver-1'') (drivers v') = Some driver1
        \<and> d_Status driver1 = ONLINE)"
proof -
  let ?req = "\<lparr>pp_TripID = ''trip-1'', pp_Amount = 21 / 2\<rparr>"
  let ?w = "ex_world [] [] [ex_trip ENDED] []"
  let ?run = "ProcessPayment ex_env_psp_down ?w ?req ''pay-1''"
  have called: "charged (snd ?run) \<noteq> charged ?w"
    by (simp add: ProcessPayment_def payment_GetByIdempotencyKey_def payment_Create_def
        payment_UpdateStatus_def pspCharge_def ex_env_psp_down_def ex_env_def ex_world_def
        Let_def)
  have a: "\<exists>p. fst ?run = Inr p \<and> p_Status p = FAILED
          \<and> find (\<lambda>q. p_ID q = p_ID p) (payments (snd ?run)) = Some p"
    using C8_psp_failure_absorbed [THEN conjunct1, rule_format,
        of ex_env_psp_down ?w ?req "''pay-1''" "fst ?run" "snd ?run"] called
    by (simp add: ex_env_psp_down_def ex_env_def)
  let ?v = "ex_world [ex_ride IN_TRIP ''driver-1''] [ex_driver ON_TRIP] [ex_trip STARTED] []"
  have b: "\<exists>resp v' row ride1 driver1.
          EndTrip ex_env_payment_db_down ?v ''trip-1'' (ex_inputs 601000000000) = (Inr resp, v')
        \<and> resp_Payment resp = None
        \<and> find (\<lambda>t. t_ID t = ''trip-1'') (trips v') = Some row \<and> t_Status row = ENDED
        \<and> find (\<lambda>r. r_ID r = ''ride-1'') (rides v') = Some ride1 \<and> r_Status ride1 = COMPLETED
        \<and> find (\<lambda>d. d_ID d = ''driver-1'') (drivers v') = Some driver1
        \<and> d_Status driver1 = ONLINE"
    using C8_psp_failure_absorbed [THEN conjunct2, THEN conjunct2, rule_format,
        of "''trip-1''" ex_env_payment_db_down ?v "ex_trip STARTED"
          "ex_ride IN_TRIP ''driver-1''" "ex_driver ON_TRIP" "ex_inputs 601000000000"]
    by (simp add: ex_env_payment_db_down_def ex_env_def ex_world_def ex_trip_def ex_ride_def
        ex_driver_def) blast
  from a obtain p where "?run = (Inr p, snd ?run)" "p_Status p = FAILED"
    "find (\<lambda>q. p_ID q = p_ID p) (payments (snd ?run)) = Some p"
    by (metis prod.collapse)
  with b show ?thesis by blast
qed

lemma startTripTx_effect:
  assumes "startTripTx e w trip ride driverID = Inr w1"
  shows "trips w1 = trips w @ [storedTrip trip]"
    and "find (\<lambda>t. t_ID t = t_ID trip) (trips w) = None"
    and "rides w1 = map (\<lambda>r. if r_ID r = r_ID ride
                               then storedRide r (ride\<lparr>r_Status := IN_TRIP\<rparr>) else r) (rides w)"
    and "drivers w1 = map (\<lambda>d. if d_ID d = driverID then d\<lparr>d_Status := ON_TRIP\<rparr> else d) (drivers w)"
    and "find (\<lambda>d. d_ID d = driverID) (drivers w) \<noteq> None"
    and "payments w1 = payments w" and "charged w1 = charged w"
  using assms
  by (auto simp: startTripTx_def trip_Create_def ride_Update_def driver_UpdateStatus_def
      split: option.splits sum.splits if_splits)

lemma StartTrip_success_shape:
  assumes run: "StartTrip e w req newID now = (Inr trip, w')"
  obtains ride where
      "st_RideID req \<noteq> []" "st_DriverID req \<noteq> []"
      "find (\<lambda>t. t_DriverID t = st_DriverID req \<and> t_Status t \<noteq> ENDED) (trips w) = None"
      "find (\<lambda>r. r_ID r = st_RideID req) (rides w) = Some ride"
      "r_Status ride = ASSIGNED" "r_AssignedDriverID ride = st_DriverID req"
      "trip = \<lparr>t_ID = newID, t_RideID = st_RideID req, t_DriverID = st_DriverID req,
               t_Status = STARTED, t_Fare = 0, t_StartedAt = now, t_EndedAt = 0,
               t_PausedAt = 0, t_TotalPaused = 0\<rparr>"
      "startTripTx e w trip ride (st_DriverID req) = Inr w'"
  using run
  by (auto simp: StartTrip_def trip_GetActiveByDriverID_def ride_GetByID_def Let_def
      split: if_splits option.splits sum.splits)

lemma StartTrip_conflict:
  assumes "st_RideID req \<noteq> []" "st_DriverID req \<noteq> []"
    and "faults e TripGetActiveByDriverID = None"
    and "find (\<lambda>t. t_DriverID t = st_DriverID req \<and> t_Status t \<noteq> ENDED) (trips w) = Some active"
  shows "StartTrip e w req newID now = (Inl ErrDriverHasActiveTrip, w)"
  using assms by (simp add: StartTrip_def trip_GetActiveByDriverID_def)

lemma StartTrip_rejects_ride:
  assumes "find (\<lambda>r. r_ID r = st_RideID req) (rides w) = Some ride"
    and "r_Status ride \<noteq> ASSIGNED \<or> r_AssignedDriverID ride \<noteq> st_DriverID req"
  shows "\<exists>err. StartTrip e w req newID now = (Inl err, w)"
  using assms
  by (auto simp: StartTrip_def trip_GetActiveByDriverID_def ride_GetByID_def
      split: option.splits sum.splits)

lemma StartTrip_effect:
  assumes run: "StartTrip e w req newID now = (Inr trip, w')"
  shows "find (\<lambda>t. t_ID t = t_ID trip) (trips w') = Some trip"
    and "\<exists>ride. find (\<lambda>r. r_ID r = st_RideID req) (rides w) = Some ride
           \<and> find (\<lambda>r. r_ID r = st_RideID req) (rides w')
               = Some (storedRide ride (ride\<lparr>r_Status := IN_TRIP\<rparr>))"
    and "\<exists>d. find (\<lambda>d. d_ID d = st_DriverID req) (drivers w) = Some d
           \<and> find (\<lambda>d. d_ID d = st_DriverID req) (drivers w') = Some (d\<lparr>d_Status := ON_TRIP\<rparr>)"
proof -
  from run obtain ride where
    foundr: "find (\<lambda>r. r_ID r = st_RideID req) (rides w) = Some ride"
    and shape: "trip = \<lparr>t_ID = newID, t_RideID = st_RideID req, t_DriverID = st_DriverID req,
               t_Status = STARTED, t_Fare = 0, t_StartedAt = now, t_EndedAt = 0,
               t_PausedAt = 0, t_TotalPaused = 0\<rparr>"
    and tx: "startTripTx e w trip ride (st_DriverID req) = Inr w'"
    by (rule StartTrip_success_shape)
  note eff = startTripTx_effect [OF tx]
  have rid: "r_ID ride = st_RideID req" using foundr by (rule find_key)
  have stored: "storedTrip trip = trip"
    by (simp add: storedTrip_def shape)
  show "find (\<lambda>t. t_ID t = t_ID trip) (trips w') = Some trip"
    using eff(1,2) stored by (simp add: find_snoc)
  show "\<exists>ride. find (\<lambda>r. r_ID r = st_RideID req) (rides w) = Some ride
           \<and> find (\<lambda>r. r_ID r = st_RideID req) (rides w')
               = Some (storedRide ride (ride\<lparr>r_Status := IN_TRIP\<rparr>))"
    using eff(3) foundr rid
      find_map_upd_same [where key = r_ID
        and f = "\<lambda>r. storedRide r (ride\<lparr>r_Status := IN_TRIP\<rparr>)", OF foundr]
    by (simp add: storedRide_def)
  from eff(5) obtain d where d: "find (\<lambda>d. d_ID d = st_DriverID req) (drivers w) = Some d"
    by auto
  show "\<exists>d. find (\<lambda>d. d_ID d = st_DriverID req) (drivers w) = Some d
           \<and> find (\<lambda>d. d_ID d = st_DriverID req) (drivers w') = Some (d\<lparr>d_Status := ON_TRIP\<rparr>)"
    using eff(4) d
      find_map_upd_same [where key = d_ID and f = "\<lambda>d. d\<lparr>d_Status := ON_TRIP\<rparr>", OF d]
    by simp
qed

lemma StartTrip_succeeds:
  assumes "st_RideID req \<noteq> []" "st_DriverID req \<noteq> []"
    and "faults e TripGetActiveByDriverID = None" "faults e RideGetByID = None"
    and "faults e BeginTx = None" "faults e TripCreate = None" "faults e RideUpdate = None"
    and "faults e DriverUpdateStatus = None" "faults e Commit = None"
    and "find (\<lambda>t. t_DriverID t = st_DriverID req \<and> t_Status t \<noteq> ENDED) (trips w) = None"
    and "find (\<lambda>r. r_ID r = st_RideID req) (rides w) = Some ride"
    and "r_Status ride = ASSIGNED" "r_AssignedDriverID ride = st_DriverID req"
    and "find (\<lambda>d. d_ID d = st_DriverID req) (drivers w) \<noteq> None"
    and "find (\<lambda>t. t_ID t = newID) (trips w) = None"
  shows "\<exists>trip w'. StartTrip e w req newID now = (Inr trip, w')"
proof -
  have rid: "r_ID ride = st_RideID req"
    using assms(11) by (rule find_key)
  have noclash: "find (\<lambda>t. t_ID t \<noteq> newID \<and> t_DriverID t = st_DriverID req \<and> t_Status t \<noteq> ENDED)
      (trips w) = None"
    using assms(10) by (auto simp: find_None_iff)
  show ?thesis
    using assms rid noclash
    by (simp add: StartTrip_def trip_GetActiveByDriverID_def ride_GetByID_def Let_def
        startTripTx_def trip_Create_def activeClash_def ride_Update_def driver_UpdateStatus_def)
qed

lemma StartTrip_succeeds_working:
  assumes "faults e = (\<lambda>site. None)"
    and "st_RideID req \<noteq> []" "st_DriverID req \<noteq> []"
    and "find (\<lambda>t. t_DriverID t = st_DriverID req \<and> t_Status t \<noteq> ENDED) (trips w) = None"
    and "find (\<lambda>r. r_ID r = st_RideID req) (rides w) = Some ride"
    and "r_Status ride = ASSIGNED" "r_AssignedDriverID ride = st_DriverID req"
    and "find (\<lambda>d. d_ID d = st_DriverID req) (drivers w) = Some driver"
    and "find (\<lambda>t. t_ID t = newID) (trips w) = None"
  shows "\<exists>trip w'. StartTrip e w req newID now = (Inr trip, w')"
  using assms by (intro StartTrip_succeeds [where ride = ride]) simp_all

lemma StartTrip_failure_unchanged:
  assumes "StartTrip e w req newID now = (Inl err, w')"
  shows "w' = w"
  using assms
  by (auto simp: StartTrip_def Let_def split: if_splits option.splits sum.splits)

text \<open>
  Claim C7. \<open>StartTrip(ride_id, driver_id)\<close> fails with a conflict error when the
  driver already has a trip whose status is not ENDED (first part, for a request with
  both identifiers given and a trip lookup that succeeds); it fails when the ride's
  status is not ASSIGNED or the ride's assigned driver differs from \<open>driver_id\<close> (second
  part); and only when all three preconditions hold does it create a trip in STARTED
  state, set the ride to IN_TRIP and set the driver to ON_TRIP (third part: what a
  successful call found and what it wrote; fourth part: a failed call changes nothing;
  fifth part: with all three preconditions, an existing driver, a fresh trip identifier
  and external systems that work, the call succeeds). A request with an empty
  identifier is rejected before these checks as invalid input.
\<close>

theorem C7_start_trip_preconditions:
  "(st_RideID req \<noteq> [] \<and> st_DriverID req \<noteq> []
      \<and> faults e TripGetActiveByDriverID = None
      \<and> find (\<lambda>t. t_DriverID t = st_DriverID req \<and> t_Status t \<noteq> ENDED) (trips w) = Some active
    \<longrightarrow> StartTrip e w req newID now = (Inl ErrDriverHasActiveTrip, w)
        \<and> mapErrorToHTTPStatus ErrDriverHasActiveTrip = 409)
   \<and> (find (\<lambda>r. r_ID r = st_RideID req) (rides w) = Some ride
      \<and> (r_Status ride \<noteq> ASSIGNED \<or> r_AssignedDriverID ride \<noteq> st_DriverID req)
    \<longrightarrow> (\<exists>err. StartTrip e w req newID now = (Inl err, w)))
   \<and> (StartTrip e w req newID now = (Inr trip, w')
    \<longrightarrow> find (\<lambda>t. t_DriverID t = st_DriverID req \<and> t_Status t \<noteq> ENDED) (trips w) = None
        \<and> (\<exists>ride0 ride1. find (\<lambda>r. r_ID r = st_RideID req) (rides w) = Some ride0
              \<and> r_Status ride0 = ASSIGNED \<and> r_AssignedDriverID ride0 = st_DriverID req
              \<and> find (\<lambda>r. r_ID r = st_RideID req) (rides w') = Some ride1
              \<and> r_Status ride1 = IN_TRIP \<and> r_AssignedDriverID ride1 = st_DriverID req)
        \<and> t_Status trip = STARTED \<and> t_RideID trip = st_RideID req
        \<and> t_DriverID trip = st_DriverID req \<and> t_StartedAt trip = now
        \<and> t_TotalPaused trip = 0
        \<and> find (\<lambda>t. t_ID t = t_ID trip) (trips w') = Some trip
        \<and> (\<exists>d. find (\<lambda>d. d_ID d = st_DriverID req) (drivers w') = Some d
              \<and> d_Status d = ON_TRIP))
   \<and> (StartTrip e w req newID now = (Inl err, w') \<longrightarrow> w' = w)
   \<and> (faults e = (\<lambda>site. None)
      \<and> st_RideID req \<noteq> [] \<and> st_DriverID req \<noteq> []
      \<and> find (\<lambda>t. t_DriverID t = st_DriverID req \<and> t_Status t \<noteq> ENDED) (trips w) = None
      \<and> find (\<lambda>r. r_ID r = st_RideID req) (rides w) = Some ride
      \<and> r_Status ride = ASSIGNED \<and> r_AssignedDriverID ride = st_DriverID req
      \<and> find (\<lambda>d. d_ID d = st_DriverID req) (drivers w) = Some driver
      \<and> find (\<lambda>t. t_ID t = newID) (trips w) = None
    \<longrightarrow> (\<exists>trip1 w1. StartTrip e w req newID now = (Inr trip1, w1)))"
proof (intro conjI impI)
  assume "st_RideID req \<noteq> [] \<and> st_DriverID req \<noteq> []
      \<and> faults e TripGetActiveByDriverID = None
      \<and> find (\<lambda>t. t_DriverID t = st_DriverID req \<and> t_Status t \<noteq> ENDED) (trips w) = Some active"
  then show "StartTrip e w req newID now = (Inl ErrDriverHasActiveTrip, w)"
    using StartTrip_conflict [of req e w active newID now] by blast
next
  show "mapErrorToHTTPStatus ErrDriverHasActiveTrip = 409" by simp
next
  assume "find (\<lambda>r. r_ID r = st_RideID req) (rides w) = Some ride
      \<and> (r_Status ride \<noteq> ASSIGNED \<or> r_AssignedDriverID ride \<noteq> st_DriverID req)"
  then show "\<exists>err. StartTrip e w req newID now = (Inl err, w)"
    using StartTrip_rejects_ride [of req w ride e newID now] by blast
next
  assume run: "StartTrip e w req newID now = (Inr trip, w')"
  from run obtain ride0 where
    noactive: "find (\<lambda>t. t_DriverID t = st_DriverID req \<and> t_Status t \<noteq> ENDED) (trips w) = None"
    and foundr: "find (\<lambda>r. r_ID r = st_RideID req) (rides w) = Some ride0"
    and st: "r_Status ride0 = ASSIGNED" "r_AssignedDriverID ride0 = st_DriverID req"
    and shape: "trip = \<lparr>t_ID = newID, t_RideID = st_RideID req, t_DriverID = st_DriverID req,
               t_Status = STARTED, t_Fare = 0, t_StartedAt = now, t_EndedAt = 0,
               t_PausedAt = 0, t_TotalPaused = 0\<rparr>"
    by (rule StartTrip_success_shape)
  note eff = StartTrip_effect [OF run]
  show "find (\<lambda>t. t_DriverID t = st_DriverID req \<and> t_Status t \<noteq> ENDED) (trips w) = None"
    by (rule noactive)
  show "\<exists>ride0 ride1. find (\<lambda>r. r_ID r = st_RideID req) (rides w) = Some ride0
              \<and> r_Status ride0 = ASSIGNED \<and> r_AssignedDriverID ride0 = st_DriverID req
              \<and> find (\<lambda>r. r_ID r = st_RideID req) (rides w') = Some ride1
              \<and> r_Status ride1 = IN_TRIP \<and> r_AssignedDriverID ride1 = st_DriverID req"
    using eff(2) foundr st by (auto simp: storedRide_def)
  show "t_Status trip = STARTED" "t_RideID trip = st_RideID req"
    "t_DriverID trip = st_DriverID req" "t_StartedAt trip = now" "t_TotalPaused trip = 0"
    by (simp_all add: shape)
  show "find (\<lambda>t. t_ID t = t_ID trip) (trips w') = Some trip"
    by (rule eff(1))
  show "\<exists>d. find (\<lambda>d. d_ID d = st_DriverID req) (drivers w') = Some d \<and> d_Status d = ON_TRIP"
    using eff(3) by auto
next
  assume "StartTrip e w req newID now = (Inl err, w')"
  then show "w' = w" by (rule StartTrip_failure_unchanged)
next
  assume "faults e = (\<lambda>site. None)
      \<and> st_RideID req \<noteq> [] \<and> st_DriverID req \<noteq> []
      \<and> find (\<lambda>t. t_DriverID t = st_DriverID req \<and> t_Status t \<noteq> ENDED) (trips w) = None
      \<and> find (\<lambda>r. r_ID r = st_RideID req) (rides w) = Some ride
      \<and> r_Status ride = ASSIGNED \<and> r_AssignedDriverID ride = st_DriverID req
      \<and> find (\<lambda>d. d_ID d = st_DriverID req) (drivers w) = Some driver
      \<and> find (\<lambda>t. t_ID t = newID) (trips w) = None"
  then show "\<exists>trip1 w1. StartTrip e w req newID now = (Inr trip1, w1)"
    using StartTrip_succeeds_working [of e req w ride driver newID now] by blast
qed

theorem C7_start_trip_preconditions_witness:
  "StartTrip ex_env (ex_world [ex_ride ASSIGNED ''driver-1''] [ex_driver ON_TRIP]
        [ex_trip PAUSED] [])
      \<lparr>st_RideID = ''ride-1'', st_DriverID = ''driver-1''\<rparr> ''trip-2'' 5000000000
     = (Inl ErrDriverHasActiveTrip,
        ex_world [ex_ride ASSIGNED ''driver-1''] [ex_driver ON_TRIP] [ex_trip PAUSED] [])
   \<and> (\<exists>err. StartTrip ex_env (ex_world [ex_ride REQUESTED []] [ex_driver ONLINE] [] [])
        \<lparr>st_RideID = ''ride-1'', st_DriverID = ''driver-1''\<rparr> ''trip-2'' 5000000000
       = (Inl err, ex_world [ex_ride REQUESTED []] [ex_driver ONLINE] [] []))
   \<and> (\<exists>trip w' d. StartTrip ex_env
          (ex_world [ex_ride ASSIGNED ''driver-1''] [ex_driver ON_TRIP] [ex_trip ENDED] [])
          \<lparr>st_RideID = ''ride-1'', st_DriverID = ''driver-1''\<rparr> ''trip-2'' 5000000000
         = (Inr trip, w')
       \<and> t_Status trip = STARTED
       \<and> find (\<lambda>t. t_ID t = t_ID trip) (trips w') = Some trip
       \<and> find (\<lambda>d. d_ID d = ''driver-1'') (drivers w') = Some d \<and> d_Status d = ON_TRIP)"
proof -
  let ?req = "\<lparr>st_RideID = ''ride-1'', st_DriverID = ''driver-1''\<rparr>"
  let ?w3 = "ex_world [ex_ride ASSIGNED ''driver-1''] [ex_driver ON_TRIP] [ex_trip ENDED] []"
  have a: "StartTrip ex_env (ex_world [ex_ride ASSIGNED ''driver-1''] [ex_driver ON_TRIP]
        [ex_trip PAUSED] []) ?req ''trip-2'' 5000000000
     = (Inl ErrDriverHasActiveTrip,
        ex_world [ex_ride ASSIGNED ''driver-1''] [ex_driver ON_TRIP] [ex_trip PAUSED] [])"
    using C7_start_trip_preconditions [THEN conjunct1, of ?req ex_env
        "ex_world [ex_ride ASSIGNED ''driver-1''] [ex_driver ON_TRIP] [ex_trip PAUSED] []"
        "ex_trip PAUSED"]
    by (simp add: ex_env_def ex_world_def ex_trip_def)
  have b: "\<exists>err. StartTrip ex_env (ex_world [ex_ride REQUESTED []] [ex_driver ONLINE] [] [])
        ?req ''trip-2'' 5000000000
       = (Inl err, ex_world [ex_ride REQUESTED []] [ex_driver ONLINE] [] [])"
    using C7_start_trip_preconditions [THEN conjunct2, THEN conjunct1, of ?req
        "ex_world [ex_ride REQUESTED []] [ex_driver ONLINE] [] []" "ex_ride REQUESTED []"]
    by (simp add: ex_world_def ex_ride_def)
  have "\<exists>trip w'. StartTrip ex_env ?w3 ?req ''trip-2'' 5000000000 = (Inr trip, w')"
    by (rule StartTrip_succeeds [where ride = "ex_ride ASSIGNED ''driver-1''"])
      (simp_all add: ex_env_def ex_world_def ex_trip_def ex_ride_def ex_driver_def)
  then obtain trip w' where
    run: "StartTrip ex_env ?w3 ?req ''trip-2'' 5000000000 = (Inr trip, w')"
    by blast
  from C7_start_trip_preconditions [THEN conjunct2, THEN conjunct2, THEN conjunct1,
      rule_format, OF run]
  have c: "\<exists>d. t_Status trip = STARTED
       \<and> find (\<lambda>t. t_ID t = t_ID trip) (trips w') = Some trip
       \<and> find (\<lambda>d. d_ID d = ''driver-1'') (drivers w') = Some d \<and> d_Status d = ON_TRIP"
    by auto
  from a b run c show ?thesis by blast
qed

section \<open>RideService: the claims\<close>

lemma CancelRide_success_shape:
  assumes run: "CancelRide e w req now = (Inr ride', w')"
  obtains ride0 where
      "cr_RideID req \<noteq> []"
      "find (\<lambda>r. r_ID r = cr_RideID req) (rides w) = Some ride0"
      "r_Status ride0 = REQUESTED \<or> r_Status ride0 = ASSIGNED"
      "ride' = ride0\<lparr>r_Status := CANCELLED, r_CancelledAt := now,
                       r_CancelReason := cr_Reason req\<rparr>"
      "w' = w\<lparr>rides := map (\<lambda>r. if r_ID r = cr_RideID req then storedRide r ride' else r)
                            (rides w)\<rparr>"
proof -
  have key: "find (\<lambda>r. r_ID r = cr_RideID req) (rides w) = Some r \<Longrightarrow> r_ID r = cr_RideID req"
    for r by (rule find_key)
  show ?thesis
    using run that
    by (auto simp: CancelRide_def ride_GetByID_def ride_Update_def Let_def
        split: if_splits option.splits sum.splits dest!: key)
qed

lemma CancelRide_reject_unchanged:
  assumes "CancelRide e w req now = (Inl err, w')"
  shows "w' = w"
  using assms
  by (auto simp: CancelRide_def Let_def split: if_splits option.splits sum.splits)

lemma CancelRide_already_cancelled:
  assumes "cr_RideID req \<noteq> []" "faults e RideGetByID = None"
    and "find (\<lambda>r. r_ID r = cr_RideID req) (rides w) = Some ride0"
    and "r_Status ride0 = CANCELLED"
  shows "CancelRide e w req now = (Inl ErrRideAlreadyCancelled, w)"
  using assms by (simp add: CancelRide_def ride_GetByID_def)

lemma CancelRide_in_progress:
  assumes "cr_RideID req \<noteq> []" "faults e RideGetByID = None"
    and "find (\<lambda>r. r_ID r = cr_RideID req) (rides w) = Some ride0"
    and "r_Status ride0 = IN_TRIP \<or> r_Status ride0 = COMPLETED"
  shows "CancelRide e w req now = (Inl ErrRideCannotBeCancelled, w)"
  using assms by (auto simp: CancelRide_def ride_GetByID_def)

lemma CancelRide_succeeds:
  assumes "cr_RideID req \<noteq> []" "faults e RideGetByID = None" "faults e RideUpdate = None"
    and "find (\<lambda>r. r_ID r = cr_RideID req) (rides w) = Some ride0"
    and "r_Status ride0 = REQUESTED \<or> r_Status ride0 = ASSIGNED"
  shows "\<exists>ride' w'. CancelRide e w req now = (Inr ride', w')"
proof -
  have "r_ID ride0 = cr_RideID req" using assms(4) by (rule find_key)
  then show ?thesis
    using assms by (auto simp: CancelRide_def ride_GetByID_def ride_Update_def Let_def)
qed

lemma CancelRide_succeeds_working:
  assumes "faults e = (\<lambda>site. None)" "cr_RideID req \<noteq> []"
    and "find (\<lambda>r. r_ID r = cr_RideID req) (rides w) = Some ride"
    and "r_Status ride = REQUESTED \<or> r_Status ride = ASSIGNED"
  shows "\<exists>ride' w'. CancelRide e w req now = (Inr ride', w')"
  using assms by (intro CancelRide_succeeds [where ?ride0.0 = ride]) simp_all

lemma CancelRide_row:
  assumes run: "CancelRide e w req now = (Inr ride', w')"
  shows "\<exists>ride0. find (\<lambda>r. r_ID r = cr_RideID req) (rides w) = Some ride0
          \<and> find (\<lambda>r. r_ID r = cr_RideID req) (rides w') = Some (storedRide ride0 ride')"
proof -
  from run obtain ride0 where
    foundr: "find (\<lambda>r. r_ID r = cr_RideID req) (rides w) = Some ride0"
    and shape: "ride' = ride0\<lparr>r_Status := CANCELLED, r_CancelledAt := now,
                       r_CancelReason := cr_Reason req\<rparr>"
    and w': "w' = w\<lparr>rides := map (\<lambda>r. if r_ID r = cr_RideID req then storedRide r ride' else r)
                            (rides w)\<rparr>"
    by (rule CancelRide_success_shape)
  have rid: "r_ID ride0 = cr_RideID req" using foundr by (rule find_key)
  have "find (\<lambda>r. r_ID r = cr_RideID req) (rides w') = Some (storedRide ride0 ride')"
    using w' rid shape
      find_map_upd_same [where key = r_ID and f = "\<lambda>r. storedRide r ride'", OF foundr]
    by (simp add: storedRide_def)
  with foundr show ?thesis by blast
qed

text \<open>
  Claim C9. \<open>CancelRide\<close> succeeds only when the ride's status is REQUESTED or
  ASSIGNED, and then sets the status to CANCELLED, \<open>cancelled_at\<close> and the reason, in
  the returned ride and in the stored row (first part); for a ride that is already
  CANCELLED it returns a conflict error (second part) and for a ride that is IN_TRIP
  or COMPLETED it rejects the cancel (third part), the ride being looked up by a given
  identifier with a read that succeeds; in every rejecting case the world, with the
  ride in it, is left unchanged (fourth part); and a ride that is REQUESTED or ASSIGNED
  is cancelled when the external systems work (fifth part).
\<close>

theorem C9_cancel_ride_rules:
  "(CancelRide e w req now = (Inr ride', w')
    \<longrightarrow> (\<exists>ride0 row. find (\<lambda>r. r_ID r = cr_RideID req) (rides w) = Some ride0
            \<and> (r_Status ride0 = REQUESTED \<or> r_Status ride0 = ASSIGNED)
            \<and> r_Status ride' = CANCELLED \<and> r_CancelledAt ride' = now
            \<and> r_CancelReason ride' = cr_Reason req
            \<and> find (\<lambda>r. r_ID r = cr_RideID req) (rides w') = Some row
            \<and> r_Status row = CANCELLED \<and> r_CancelledAt row = now
            \<and> r_CancelReason row = cr_Reason req))
   \<and> (cr_RideID req \<noteq> [] \<and> faults e RideGetByID = None
      \<and> find (\<lambda>r. r_ID r = cr_RideID req) (rides w) = Some ride
      \<and> r_Status ride = CANCELLED
    \<longrightarrow> CancelRide e w req now = (Inl ErrRideAlreadyCancelled, w)
        \<and> mapErrorToHTTPStatus ErrRideAlreadyCancelled = 409)
   \<and> (cr_RideID req \<noteq> [] \<and> faults e RideGetByID = None
      \<and> find (\<lambda>r. r_ID r = cr_RideID req) (rides w) = Some ride
      \<and> (r_Status ride = IN_TRIP \<or> r_Status ride = COMPLETED)
    \<longrightarrow> CancelRide e w req now = (Inl ErrRideCannotBeCancelled, w))
   \<and> (CancelRide e w req now = (Inl err, w') \<longrightarrow> w' = w)
   \<and> (faults e = (\<lambda>site. None) \<and> cr_RideID req \<noteq> []
      \<and> find (\<lambda>r. r_ID r = cr_RideID req) (rides w) = Some ride
      \<and> (r_Status ride = REQUESTED \<or> r_Status ride = ASSIGNED)
    \<longrightarrow> (\<exists>ride1 w1. CancelRide e w req now = (Inr ride1, w1)))"
proof (intro conjI impI)
  assume run: "CancelRide e w req now = (Inr ride', w')"
  from run obtain ride0 where
    foundr: "find (\<lambda>r. r_ID r = cr_RideID req) (rides w) = Some ride0"
    and st: "r_Status ride0 = REQUESTED \<or> r_Status ride0 = ASSIGNED"
    and shape: "ride' = ride0\<lparr>r_Status := CANCELLED, r_CancelledAt := now,
                       r_CancelReason := cr_Reason req\<rparr>"
    by (rule CancelRide_success_shape)
  from CancelRide_row [OF run] foundr
  have row: "find (\<lambda>r. r_ID r = cr_RideID req) (rides w') = Some (storedRide ride0 ride')"
    by simp
  show "\<exists>ride0 row. find (\<lambda>r. r_ID r = cr_RideID req) (rides w) = Some ride0
            \<and> (r_Status ride0 = REQUESTED \<or> r_Status ride0 = ASSIGNED)
            \<and> r_Status ride' = CANCELLED \<and> r_CancelledAt ride' = now
            \<and> r_CancelReason ride' = cr_Reason req
            \<and> find (\<lambda>r. r_ID r = cr_RideID req) (rides w') = Some row
            \<and> r_Status row = CANCELLED \<and> r_CancelledAt row = now
            \<and> r_CancelReason row = cr_Reason req"
    using foundr st row
    by (intro exI [of _ ride0] exI [of _ "storedRide ride0 ride'"])
      (simp add: shape storedRide_def)
next
  assume "cr_RideID req \<noteq> [] \<and> faults e RideGetByID = None
      \<and> find (\<lambda>r. r_ID r = cr_RideID req) (rides w) = Some ride
      \<and> r_Status ride = CANCELLED"
  then show "CancelRide e w req now = (Inl ErrRideAlreadyCancelled, w)"
    using CancelRide_already_cancelled [of req e w ride now] by blast
next
  show "mapErrorToHTTPStatus ErrRideAlreadyCancelled = 409" by simp
next
  assume "cr_RideID req \<noteq> [] \<and> faults e RideGetByID = None
      \<and> find (\<lambda>r. r_ID r = cr_RideID req) (rides w) = Some ride
      \<and> (r_Status ride = IN_TRIP \<or> r_Status ride = COMPLETED)"
  then show "CancelRide e w req now = (Inl ErrRideCannotBeCancelled, w)"
    using CancelRide_in_progress [of req e w ride now] by blast
next
  assume "CancelRide e w req now = (Inl err, w')"
  then show "w' = w" by (rule CancelRide_reject_unchanged)
next
  assume "faults e = (\<lambda>site. None) \<and> cr_RideID req \<noteq> []
      \<and> find (\<lambda>r. r_ID r = cr_RideID req) (rides w) = Some ride
      \<and> (r_Status ride = REQUESTED \<or> r_Status ride = ASSIGNED)"
  then show "\<exists>ride1 w1. CancelRide e w req now = (Inr ride1, w1)"
    using CancelRide_succeeds_working [of e req w ride now] by blast
qed

theorem C9_cancel_ride_rules_witness:
  "(\<exists>ride' w' row. CancelRide ex_env
        (ex_world [ex_ride REQUESTED []] [ex_driver ONLINE] [] []) ex_cancel 7000 = (Inr ride', w')
      \<and> r_Status ride' = CANCELLED \<and> r_CancelledAt ride' = 7000
      \<and> find (\<lambda>r. r_ID r = ''ride-1'') (rides w') = Some row \<and> r_Status row = CANCELLED
      \<and> r_CancelReason row = ''user changed mind'')
   \<and> CancelRide ex_env (ex_world [ex_ride CANCELLED []] [ex_driver ONLINE] [] []) ex_cancel 7000
       = (Inl ErrRideAlreadyCancelled, ex_world [ex_ride CANCELLED []] [ex_driver ONLINE] [] [])
   \<and> CancelRide ex_env (ex_world [ex_ride IN_TRIP ''driver-1''] [ex_driver ON_TRIP]
          [ex_trip STARTED] []) ex_cancel 7000
       = (Inl ErrRideCannotBeCancelled,
          ex_world [ex_ride IN_TRIP ''driver-1''] [ex_driver ON_TRIP] [ex_trip STARTED] [])"
proof -
  let ?w1 = "ex_world [ex_ride REQUESTED []] [ex_driver ONLINE] [] []"
  have "\<exists>ride' w'. CancelRide ex_env ?w1 ex_cancel 7000 = (Inr ride', w')"
    by (rule CancelRide_succeeds [where ?ride0.0 = "ex_ride REQUESTED []"])
      (simp_all add: ex_env_def ex_world_def ex_ride_def ex_cancel_def)
  then obtain ride' w' where run: "CancelRide ex_env ?w1 ex_cancel 7000 = (Inr ride', w')"
    by blast
  from C9_cancel_ride_rules [THEN conjunct1, rule_format, OF run]
  have a: "\<exists>row. r_Status ride' = CANCELLED \<and> r_CancelledAt ride' = 7000
      \<and> find (\<lambda>r. r_ID r = ''ride-1'') (rides w') = Some row \<and> r_Status row = CANCELLED
      \<and> r_CancelReason row = ''user changed mind''"
    by (auto simp: ex_cancel_def)
  have b: "CancelRide ex_env (ex_world [ex_ride CANCELLED []] [ex_driver ONLINE] [] [])
        ex_cancel 7000
       = (Inl ErrRideAlreadyCancelled, ex_world [ex_ride CANCELLED []] [ex_driver ONLINE] [] [])"
    using C9_cancel_ride_rules [THEN conjunct2, THEN conjunct1, of ex_cancel ex_env
        "ex_world [ex_ride CANCELLED []] [ex_driver ONLINE] [] []" "ex_ride CANCELLED []" 7000]
    by (simp add: ex_env_def ex_world_def ex_ride_def ex_cancel_def)
  have c: "CancelRide ex_env (ex_world [ex_ride IN_TRIP ''driver-1''] [ex_driver ON_TRIP]
          [ex_trip STARTED] []) ex_cancel 7000
       = (Inl ErrRideCannotBeCancelled,
          ex_world [ex_ride IN_TRIP ''driver-1''] [ex_driver ON_TRIP] [ex_trip STARTED] [])"
    using C9_cancel_ride_rules [THEN conjunct2, THEN conjunct2, THEN conjunct1,
        of ex_cancel ex_env
        "ex_world [ex_ride IN_TRIP ''driver-1''] [ex_driver ON_TRIP] [ex_trip STARTED] []"
        "ex_ride IN_TRIP ''driver-1''" 7000]
    by (simp add: ex_env_def ex_world_def ex_ride_def ex_cancel_def)
  from run a b c show ?thesis by blast
qed

text \<open>
  Claim C10. A successful \<open>CancelRide\<close> on a ride in ASSIGNED state writes only the
  ride record: the driver, trip and payment tables, the charges and the locks are
  unchanged, every other ride is unchanged, and the row of the ride is the row as an
  update stores it with only status, \<open>cancelled_at\<close> and \<open>cancel_reason\<close> changed (for
  a row with a surge multiplier of at least 1 and a payment method, as the schema
  requires, that is the old row with these three fields changed). The ride's
  \<open>assigned_driver_id\<close> is preserved, and a driver who was set to ON_TRIP at
  assignment is still stored as ON_TRIP after the cancellation.
\<close>

theorem C10_cancel_leaves_driver:
  assumes run: "CancelRide e w req now = (Inr ride', w')"
    and found: "find (\<lambda>r. r_ID r = cr_RideID req) (rides w) = Some ride0"
    and assigned: "r_Status ride0 = ASSIGNED"
  shows "drivers w' = drivers w \<and> trips w' = trips w \<and> payments w' = payments w
       \<and> charged w' = charged w \<and> locks w' = locks w
       \<and> r_AssignedDriverID ride' = r_AssignedDriverID ride0
       \<and> find (\<lambda>r. r_ID r = cr_RideID req) (rides w')
            = Some ((storedRide ride0 ride0)\<lparr>r_Status := CANCELLED, r_CancelledAt := now,
                                              r_CancelReason := cr_Reason req\<rparr>)
       \<and> (r_SurgeMultiplier ride0 \<ge> 1 \<and> r_PaymentMethod ride0 \<noteq> None
            \<longrightarrow> find (\<lambda>r. r_ID r = cr_RideID req) (rides w')
                  = Some (ride0\<lparr>r_Status := CANCELLED, r_CancelledAt := now,
                                 r_CancelReason := cr_Reason req\<rparr>))
       \<and> (other \<noteq> cr_RideID req
            \<longrightarrow> find (\<lambda>r. r_ID r = other) (rides w') = find (\<lambda>r. r_ID r = other) (rides w))
       \<and> (find (\<lambda>d. d_ID d = r_AssignedDriverID ride0) (drivers w) = Some driver
            \<and> d_Status driver = ON_TRIP
            \<longrightarrow> find (\<lambda>d. d_ID d = r_AssignedDriverID ride0) (drivers w') = Some driver
                \<and> r_AssignedDriverID ride' = d_ID driver)"
proof -
  from run obtain ride00 where
    foundr: "find (\<lambda>r. r_ID r = cr_RideID req) (rides w) = Some ride00"
    and shape0: "ride' = ride00\<lparr>r_Status := CANCELLED, r_CancelledAt := now,
                       r_CancelReason := cr_Reason req\<rparr>"
    and w': "w' = w\<lparr>rides := map (\<lambda>r. if r_ID r = cr_RideID req then storedRide r ride' else r)
                            (rides w)\<rparr>"
    by (rule CancelRide_success_shape)
  have same: "ride00 = ride0" using foundr found by simp
  note shape = shape0 [unfolded same]
  have rid: "r_ID ride0 = cr_RideID req" using found by (rule find_key)
  from CancelRide_row [OF run] found
  have row: "find (\<lambda>r. r_ID r = cr_RideID req) (rides w') = Some (storedRide ride0 ride')"
    by simp
  have row_eq: "storedRide ride0 ride'
      = (storedRide ride0 ride0)\<lparr>r_Status := CANCELLED, r_CancelledAt := now,
                                  r_CancelReason := cr_Reason req\<rparr>"
    by (simp add: shape storedRide_def)
  have valid: "r_SurgeMultiplier ride0 \<ge> 1 \<and> r_PaymentMethod ride0 \<noteq> None
      \<longrightarrow> storedRide ride0 ride0 = ride0"
    by (auto simp: storedRide_def)
  have others: "other \<noteq> cr_RideID req
      \<longrightarrow> find (\<lambda>r. r_ID r = other) (rides w') = find (\<lambda>r. r_ID r = other) (rides w)"
    using find_map_upd_other [where key = r_ID and k = "cr_RideID req" and k' = other
        and f = "\<lambda>r. storedRide r ride'" and xs = "rides w"] rid
    by (simp add: w' shape storedRide_def)
  have drv: "find (\<lambda>d. d_ID d = r_AssignedDriverID ride0) (drivers w) = Some driver
      \<longrightarrow> r_AssignedDriverID ride' = d_ID driver"
    using find_key [where key = d_ID and k = "r_AssignedDriverID ride0" and xs = "drivers w"
        and y = driver]
    by (simp add: shape)
  show ?thesis
    using row row_eq valid others drv
    by (simp add: w' shape)
qed

section \<open>MatchingService: the claims\<close>



text \<open>
  The matcher on the first scenario of the specification: one ONLINE driver at the
  pickup. The ride is ASSIGNED to the driver, the driver is ON_TRIP, the ride lock is
  released and the driver lock is kept.
\<close>

lemma Match_assigns_example:
  "Match ex_env_one_driver (ex_world [ex_ride REQUESTED []] [ex_driver ONLINE] [] [])
      ex_match_request
   = (Inr \<lparr>mr_DriverID = ''driver-1'', mr_Ride = ex_ride ASSIGNED ''driver-1''\<rparr>,
      (ex_world [ex_ride ASSIGNED ''driver-1''] [ex_driver ON_TRIP] [] [])
        \<lparr>locks := [''lock:driver:driver-1'']\<rparr>)"
  by (simp add: Match_def matchLocked_def AcquireRideLock_def ReleaseRideLock_def setNX_def
      ride_GetByID_def defaultSearchRadiusKm_def Let_def getDriversBatchOptimized_def
      GetDriversBatch_def driver_GetByID_def cacheDriverAsync_def pickDriver_def
      cachedToDriver_def AcquireDriverLock_def ReleaseDriverLock_def assignDriver_def
      ride_Update_def driver_UpdateStatus_def storedRide_def invalidateDriverCache_def
      invalidateRideCache_def
      ex_env_one_driver_def ex_env_def ex_world_def ex_ride_def ex_driver_def
      ex_match_request_def)




text \<open>
  The sixth scenario of the specification, for claim C10: the ride is assigned by the
  matcher, which sets the driver to ON_TRIP, and is then cancelled; the driver is still
  stored as ON_TRIP, is still the ride's assigned driver, and the driver lock is still
  held.
\<close>

theorem C10_cancel_leaves_driver_witness:
  "\<exists>ride' w'.
      CancelRide ex_env
        (snd (Match ex_env_one_driver
                (ex_world [ex_ride REQUESTED []] [ex_driver ONLINE] [] []) ex_match_request))
        ex_cancel 7000 = (Inr ride', w')
    \<and> find (\<lambda>d. d_ID d = ''driver-1'')
          (drivers (snd (Match ex_env_one_driver
                (ex_world [ex_ride REQUESTED []] [ex_driver ONLINE] [] []) ex_match_request)))
        = Some (ex_driver ON_TRIP)
    \<and> find (\<lambda>d. d_ID d = ''driver-1'') (drivers w') = Some (ex_driver ON_TRIP)
    \<and> r_AssignedDriverID ride' = ''driver-1''
    \<and> find (\<lambda>r. r_ID r = ''ride-1'') (rides w')
        = Some ((ex_ride CANCELLED ''driver-1'')
                  \<lparr>r_CancelledAt := 7000, r_CancelReason := ''user changed mind''\<rparr>)
    \<and> locks w' = [''lock:driver:driver-1'']"
proof -
  let ?w = "(ex_world [ex_ride ASSIGNED ''driver-1''] [ex_driver ON_TRIP] [] [])
        \<lparr>locks := [''lock:driver:driver-1'']\<rparr>"
  have assigned: "snd (Match ex_env_one_driver
      (ex_world [ex_ride REQUESTED []] [ex_driver ONLINE] [] []) ex_match_request) = ?w"
    by (simp add: Match_assigns_example)
  have "\<exists>ride' w'. CancelRide ex_env ?w ex_cancel 7000 = (Inr ride', w')"
    by (rule CancelRide_succeeds [where ?ride0.0 = "ex_ride ASSIGNED ''driver-1''"])
      (simp_all add: ex_env_def ex_world_def ex_ride_def ex_cancel_def)
  then obtain ride' w' where run: "CancelRide ex_env ?w ex_cancel 7000 = (Inr ride', w')"
    by blast
  have found: "find (\<lambda>r. r_ID r = cr_RideID ex_cancel) (rides ?w)
      = Some (ex_ride ASSIGNED ''driver-1'')"
    by (simp add: ex_world_def ex_ride_def ex_cancel_def)
  have st: "r_Status (ex_ride ASSIGNED ''driver-1'') = ASSIGNED"
    by (simp add: ex_ride_def)
  from C10_cancel_leaves_driver [OF run found st, of "''ride-2''" "ex_driver ON_TRIP"]
  have "find (\<lambda>d. d_ID d = ''driver-1'') (drivers ?w) = Some (ex_driver ON_TRIP)
    \<and> find (\<lambda>d. d_ID d = ''driver-1'') (drivers w') = Some (ex_driver ON_TRIP)
    \<and> r_AssignedDriverID ride' = ''driver-1''
    \<and> find (\<lambda>r. r_ID r = ''ride-1'') (rides w')
        = Some ((ex_ride CANCELLED ''driver-1'')
                  \<lparr>r_CancelledAt := 7000, r_CancelReason := ''user changed mind''\<rparr>)
    \<and> locks w' = [''lock:driver:driver-1'']"
    by (simp add: ex_world_def ex_ride_def ex_driver_def ex_cancel_def storedRide_def)
  with run show ?thesis unfolding assigned by blast
qed

end
